theory Spec2Isabelle
  imports Complex_Main
begin

section \<open>JavaScript values crossing the service boundary\<close>

text \<open>
  The service (class \<open>MetamaskService\<close>, final revision) is untyped at its boundary:
  the injected wallet, the ABI entries, the contract handle and every RPC payload have
  type \<open>any\<close>. The model keeps the shapes the code inspects.

  \<^item> A value that may be \<open>undefined\<close> is an \<open>option\<close> (\<open>None\<close> is \<open>undefined\<close>).
  \<^item> A value returned by a contract read is a \<open>jsval\<close>: web3 returns the decimal
    string of a \<open>uint256\<close>; \<open>undefined\<close> and \<open>null\<close> are kept because the code
    tests the value for truthiness.
  \<^item> A thrown value or a rejection reason is a \<open>js_error\<close>.
\<close>

datatype js_error = TypeError | Error string

datatype jsval = JUndefined | JNull | JString string

text \<open>The result of calling a function that returns a promise: it throws synchronously,
  or returns a promise that is rejected or resolved.\<close>

datatype ('r, 'a) outcome = Threw js_error | Rejected 'r | Resolved 'a

text \<open>Truthiness of a value (\<open>if (v)\<close>, \<open>v ? a : b\<close>, \<open>v && e\<close>): \<open>undefined\<close>,
  \<open>null\<close> and the empty string are falsy.\<close>

fun truthy :: "jsval \<Rightarrow> bool" where
  "truthy JUndefined = False"
| "truthy JNull = False"
| "truthy (JString s) = (s \<noteq> [])"

text \<open>\<open>a || b\<close> on optional strings, as in \<open>walletAddress || this.walletAddress\<close>.\<close>

fun js_or :: "string option \<Rightarrow> string option \<Rightarrow> string option" where
  "js_or None b = b"
| "js_or (Some s) b = (if s = [] then b else Some s)"

text \<open>\<open>String(v)\<close> and string concatenation with a possibly absent value:
  \<open>undefined\<close> prints as \<open>undefined\<close>. \<open>localStorage.getItem\<close> answers \<open>null\<close>
  for a missing key, and \<open>String(null)\<close> is \<open>null\<close>.\<close>

definition String_undefined :: "string option \<Rightarrow> string" where
  "String_undefined v = (case v of None \<Rightarrow> ''undefined'' | Some s \<Rightarrow> s)"

definition String_null :: "string option \<Rightarrow> string" where
  "String_null v = (case v of None \<Rightarrow> ''null'' | Some s \<Rightarrow> s)"

section \<open>ABI lookup: \<open>getMethodInterface\<close>\<close>

text \<open>An ABI entry has at least a \<open>name\<close>; constructor and fallback entries have none.
  \<open>inputs\<close> stands for the rest of the entry.\<close>

record method_descriptor =
  name :: "string option"
  inputs :: "string list"

text \<open>
  \<^verbatim>\<open>getMethodInterface(abi, methodName) {
    return abi.filter((m) => { return m.name === methodName; })[0];
  }\<close>
  Indexing the filtered array at 0 yields \<open>undefined\<close> when it is empty.
\<close>

definition getMethodInterface :: "method_descriptor list \<Rightarrow> string \<Rightarrow> method_descriptor option" where
  "getMethodInterface abi methodName =
     (case filter (\<lambda>m. name m = Some methodName) abi of
        [] \<Rightarrow> None
      | m # _ \<Rightarrow> Some m)"

section \<open>The \<open>chainChanged\<close> and \<open>accountsChanged\<close> handlers\<close>

text \<open>
  The handlers touch two page-level globals: \<open>localStorage\<close> and
  \<open>window.location.reload()\<close>. The page is the storage map together with the list of
  effects performed so far, oldest first.
\<close>

datatype page_effect = SetItem string string | Reload

record page =
  localStorage :: "string \<rightharpoonup> string"
  effects :: "page_effect list"

text \<open>
  \<^verbatim>\<open>this.wallet.on('chainChanged', (newChain: any) => {
    const chainId = localStorage.getItem('chainId');
    if (String(chainId) !== String(newChain)) {
      localStorage.setItem('chainId', newChain);
      window.location.reload();
    }
  });\<close>
  The wallet passes the chain id as a string.
\<close>

definition chainChanged :: "string \<Rightarrow> page \<Rightarrow> page" where
  "chainChanged newChain p =
     (let chainId = localStorage p ''chainId'' in
      if String_null chainId \<noteq> newChain
      then p\<lparr>localStorage := (localStorage p)(''chainId'' \<mapsto> newChain),
             effects := effects p @ [SetItem ''chainId'' newChain, Reload]\<rparr>
      else p)"

text \<open>
  \<^verbatim>\<open>this.wallet.on('accountsChanged', (newAccounts: any) => {
    window.location.reload();
  });\<close>
\<close>

definition accountsChanged :: "string list \<Rightarrow> page \<Rightarrow> page" where
  "accountsChanged newAccounts p = p\<lparr>effects := effects p @ [Reload]\<rparr>"

section \<open>The wallet, the web3 provider and the service object\<close>

text \<open>
  A transaction request, as passed to \<open>eth_sendTransaction\<close>. \<open>approveToken\<close> builds
  it without a \<open>value\<close> key (\<open>tx_value = None\<close>); \<open>from\<close> is whatever
  \<open>walletAddress || this.walletAddress\<close> evaluates to.
\<close>

record transactionConfig =
  tx_from :: "string option"
  tx_to :: string
  tx_data :: string
  tx_value :: "jsval option"

text \<open>
  The injected wallet (\<open>window.ethereum\<close>): its cached \<open>chainId\<close> property and its
  answers to the three RPC methods the service requests. \<open>Inl\<close> is a rejected request.
\<close>

record wallet =
  chainId :: "string option"
  request_eth_chainId :: "js_error + string"
  request_eth_requestAccounts :: "js_error + string list"
  request_eth_sendTransaction :: "transactionConfig \<Rightarrow> js_error + jsval"

text \<open>
  The web3 library is a dependency that is not part of the repository; the two entry
  points the service uses are parameters of the model:
  \<open>web3.eth.abi.encodeFunctionCall(abi, data)\<close>, which receives whatever
  \<open>getMethodInterface\<close> returned (also \<open>undefined\<close>), and the read call
  \<open>new web3.eth.Contract(abi, tokenAddress).methods.totalSupply().call()\<close>.
  \<open>Inl\<close> is a thrown error or a rejected call.
\<close>

record web3 =
  encodeFunctionCall :: "method_descriptor option \<Rightarrow> jsval list \<Rightarrow> js_error + string"
  call_totalSupply :: "string \<Rightarrow> method_descriptor list \<Rightarrow> js_error + jsval"

text \<open>The \<open>contract\<close> argument of \<open>checkTokenAllowance\<close>:
  \<open>contract.methods.allowance(owner, spender).call()\<close>.\<close>

record contract =
  call_allowance :: "string option \<Rightarrow> string \<Rightarrow> js_error + jsval"

text \<open>Every request sent to the wallet and every read call issued against the chain
  is recorded, oldest first.\<close>

datatype event =
    Request_eth_chainId
  | Request_eth_requestAccounts
  | Request_eth_sendTransaction transactionConfig
  | Call_totalSupply string
  | Call_allowance "string option" string

text \<open>The fields of \<open>MetamaskService\<close>. \<open>wallet = None\<close> is a missing
  \<open>window.ethereum\<close>.\<close>

record MetamaskService =
  wallet :: "wallet option"
  web3Provider :: web3
  testnet :: "string option"
  isProduction :: bool
  walletAddress :: "string option"

text \<open>
  \<^verbatim>\<open>const networks = { mainnet: '0x1', ropsten: '0x3', kovan: '0x2a', rinkeby: '0x4' };\<close>
\<close>

definition networks :: "string \<rightharpoonup> string" where
  "networks = map_of [(''mainnet'', ''0x1''), (''ropsten'', ''0x3''),
                      (''kovan'', ''0x2a''), (''rinkeby'', ''0x4'')]"

text \<open>
  \<^verbatim>\<open>constructor({ testnet, isProduction = false }: IMetamaskService) {
    this.wallet = window.ethereum;
    this.web3Provider = new Web3(this.wallet);
    this.testnet = testnet;
    this.isProduction = isProduction;
    this.wallet.on('chainChanged', ...);
    this.wallet.on('accountsChanged', ...);
  }\<close>
  with the field initialiser \<open>walletAddress: string = ''\<close>. Registering the handlers
  reads \<open>this.wallet.on\<close>, which throws a \<open>TypeError\<close> when \<open>window.ethereum\<close>
  is \<open>undefined\<close>.
\<close>

record IMetamaskService =
  cfg_testnet :: "string option"
  cfg_isProduction :: "bool option"

definition new_MetamaskService ::
  "IMetamaskService \<Rightarrow> wallet option \<Rightarrow> web3 \<Rightarrow> js_error + MetamaskService" where
  "new_MetamaskService cfg ethereum w3 =
     (case ethereum of
        None \<Rightarrow> Inl TypeError
      | Some w \<Rightarrow>
          Inr \<lparr>wallet = Some w, web3Provider = w3, testnet = cfg_testnet cfg,
               isProduction = (case cfg_isProduction cfg of None \<Rightarrow> False | Some b \<Rightarrow> b),
               walletAddress = Some []\<rparr>)"

section \<open>\<open>getAccount\<close>\<close>

text \<open>\<open>account[0]\<close>: \<open>undefined\<close> for an empty array.\<close>

definition first_account :: "string list \<Rightarrow> string option" where
  "first_account account = (case account of [] \<Rightarrow> None | a # _ \<Rightarrow> Some a)"

record account_info =
  address :: "string option"
  network :: string

text \<open>
  The branch taken once the chain matches:
  \<^verbatim>\<open>this.eth_requestAccounts()
    .then((account) => {
      this.walletAddress = account[0];
      resolve({ address: account[0], network: ... });
    })
    .catch((_) => reject({ errorMsg: 'Not authorized' }));\<close>
  A rejection carries the object's \<open>errorMsg\<close>.
\<close>

definition requestAccounts_then ::
  "MetamaskService \<Rightarrow> wallet \<Rightarrow> string \<Rightarrow>
   (string, account_info) outcome \<times> MetamaskService \<times> event list" where
  "requestAccounts_then svc w chain =
     (case request_eth_requestAccounts w of
        Inl _ \<Rightarrow> (Rejected ''Not authorized'', svc, [Request_eth_requestAccounts])
      | Inr account \<Rightarrow>
          (Resolved \<lparr>address = first_account account, network = chain\<rparr>,
           svc\<lparr>walletAddress := first_account account\<rparr>,
           [Request_eth_requestAccounts]))"

text \<open>
  The branch taken when the wallet has no cached chain id:
  \<^verbatim>\<open>this.wallet.request({ method: 'eth_chainId' })
    .then((resChain) => {
      if (resChain === usedChain) { ...request accounts... }
      else { reject({ errorMsg: 'Please choose ' + usedNetwork + ' network in metamask wallet' }); }
    })
    .catch((_) => reject({ errorMsg: 'Not authorized' }));\<close>
\<close>

definition probe_chainId ::
  "MetamaskService \<Rightarrow> wallet \<Rightarrow> string option \<Rightarrow> string option \<Rightarrow>
   (string, account_info) outcome \<times> MetamaskService \<times> event list" where
  "probe_chainId svc w usedNetwork usedChain =
     (case request_eth_chainId w of
        Inl _ \<Rightarrow> (Rejected ''Not authorized'', svc, [Request_eth_chainId])
      | Inr resChain \<Rightarrow>
          if Some resChain = usedChain then
            (case requestAccounts_then svc w resChain of
               (out, svc', evs) \<Rightarrow> (out, svc', Request_eth_chainId # evs))
          else
            (Rejected (''Please choose '' @ String_undefined usedNetwork @
                       '' network in metamask wallet''), svc, [Request_eth_chainId]))"

text \<open>
  The executor of the promise that \<open>getAccount\<close> returns, given the values computed
  before the promise is created. The first settlement of a promise wins.

  With no wallet the guard \<open>if (!this.wallet) reject({errorMsg: `${usedNetwork} wallet
  is not injected`})\<close> rejects and, having no \<open>return\<close>, falls through; every later
  path either dereferences \<open>this.wallet\<close>, which throws inside the executor, or calls
  \<open>reject\<close> again, and a settled promise ignores both, so no request is sent. With a
  wallet object the guard is skipped.
  The test \<open>!currentChain || currentChain === null\<close> holds for \<open>undefined\<close>,
  \<open>null\<close> and the empty string.
\<close>

definition getAccount_executor ::
  "MetamaskService \<Rightarrow> string option \<Rightarrow> string option \<Rightarrow> string option \<Rightarrow>
   (string, account_info) outcome \<times> MetamaskService \<times> event list" where
  "getAccount_executor svc usedNetwork usedChain currentChain =
     (case wallet svc of
        None \<Rightarrow> (Rejected (String_undefined usedNetwork @ '' wallet is not injected''), svc, [])
      | Some w \<Rightarrow>
          (case currentChain of
             None \<Rightarrow> probe_chainId svc w usedNetwork usedChain
           | Some c \<Rightarrow>
               if c = [] then probe_chainId svc w usedNetwork usedChain
               else if Some c = usedChain then requestAccounts_then svc w c
               else
                 (Rejected (''Please choose '' @ String_undefined usedNetwork @
                            '' network in metamask wallet.''), svc, [])))"

text \<open>
  \<^verbatim>\<open>getAccount() {
    const usedNetwork = this.isProduction ? 'mainnet' : this.testnet;
    const usedChain = this.isProduction ? networks.mainnet : networks[this.testnet];
    const currentChain = this.wallet.chainId;
    return new Promise((resolve, reject) => { ... });
  }\<close>
  \<open>this.wallet.chainId\<close> is read before the promise exists: with \<open>this.wallet\<close>
  undefined the property access throws a \<open>TypeError\<close> out of \<open>getAccount\<close>.
\<close>

definition usedNetwork :: "MetamaskService \<Rightarrow> string option" where
  "usedNetwork svc = (if isProduction svc then Some ''mainnet'' else testnet svc)"

definition usedChain :: "MetamaskService \<Rightarrow> string option" where
  "usedChain svc =
     (if isProduction svc then networks ''mainnet''
      else (case testnet svc of None \<Rightarrow> None | Some t \<Rightarrow> networks t))"

definition getAccount ::
  "MetamaskService \<Rightarrow> (string, account_info) outcome \<times> MetamaskService \<times> event list" where
  "getAccount svc =
     (case wallet svc of
        None \<Rightarrow> (Threw TypeError, svc, [])
      | Some w \<Rightarrow> getAccount_executor svc (usedNetwork svc) (usedChain svc) (chainId w))"

text \<open>The chain id the wallet reports to \<open>getAccount\<close>: the cached \<open>chainId\<close> when
  it is truthy, otherwise the answer to \<open>eth_chainId\<close>.\<close>

definition reports_chain :: "wallet \<Rightarrow> string \<Rightarrow> bool" where
  "reports_chain w c \<longleftrightarrow>
     (chainId w = Some c \<and> c \<noteq> []) \<or>
     ((chainId w = None \<or> chainId w = Some []) \<and> request_eth_chainId w = Inr c)"

section \<open>Decimal arithmetic: bignumber.js and native numbers\<close>

text \<open>
  The amounts are computed with bignumber.js, a dependency that is not part of the
  repository. Its values are modelled by their mathematical value, a rational or
  \<open>NaN\<close>, and its operations by their documented behaviour under the library's default
  configuration, which the service never changes: \<open>DECIMAL_PLACES = 20\<close> and
  \<open>ROUNDING_MODE = ROUND_HALF_UP\<close> (to the nearest neighbour, ties away from zero).
  \<^item> \<open>dividedBy\<close> rounds its quotient to \<open>DECIMAL_PLACES\<close> decimal places;
  \<^item> \<open>toString(10)\<close>, called with an explicit base, rounds to \<open>DECIMAL_PLACES\<close>
    decimal places and prints in fixed-point notation;
  \<^item> \<open>times\<close> and \<open>minus\<close> (here \<open>times_bn\<close> and \<open>minus_bn\<close>) are exact, and
    \<open>pow\<close> with an integer exponent is exact;
  \<^item> \<open>isPositive\<close> tests the sign of the value (\<open>this.s > 0\<close>), and the zero that
    \<open>minus\<close> yields for equal operands has a positive sign, so it answers true for that
    zero and false for \<open>NaN\<close>.
  Infinite values and negative zero do not arise from the operations below on the
  values a contract read returns, and are left out.
\<close>

datatype bignumber = BNaN | BNum rat

definition round_DECIMAL_PLACES :: "rat \<Rightarrow> rat" where
  "round_DECIMAL_PLACES x = sgn x * of_int \<lfloor>\<bar>x\<bar> * 10 ^ 20 + 1 / 2\<rfloor> / 10 ^ 20"

text \<open>\<open>x.dividedBy(new BigNumber(10).pow(d))\<close>, for a non-negative integer \<open>d\<close>.\<close>

fun dividedBy_pow10 :: "bignumber \<Rightarrow> nat \<Rightarrow> bignumber" where
  "dividedBy_pow10 BNaN d = BNaN"
| "dividedBy_pow10 (BNum x) d = BNum (round_DECIMAL_PLACES (x / 10 ^ d))"

fun times_bn :: "bignumber \<Rightarrow> bignumber \<Rightarrow> bignumber" where
  "times_bn (BNum x) (BNum y) = BNum (x * y)"
| "times_bn _ _ = BNaN"

fun minus_bn :: "bignumber \<Rightarrow> bignumber \<Rightarrow> bignumber" where
  "minus_bn (BNum x) (BNum y) = BNum (x - y)"
| "minus_bn _ _ = BNaN"

fun isPositive :: "bignumber \<Rightarrow> bool" where
  "isPositive BNaN = False"
| "isPositive (BNum x) = (0 \<le> x)"

text \<open>The value that \<open>toString(10)\<close> prints.\<close>

fun rounded :: "bignumber \<Rightarrow> bignumber" where
  "rounded BNaN = BNaN"
| "rounded (BNum x) = BNum (round_DECIMAL_PLACES x)"

text \<open>
  What remains of the platform is a parameter of the model: the native number type
  \<open>'n\<close> (an IEEE double in JavaScript) and the conversions between strings, native
  numbers and bignumber.js values.
  \<^item> \<open>BigNumber_of_string s\<close> is \<open>new BigNumber(s)\<close> for a string;
  \<^item> \<open>BigNumber_of_number v\<close> is \<open>new BigNumber(v)\<close> for a native number, also when a
    native number is passed to \<open>times\<close> or \<open>minus\<close>;
  \<^item> \<open>fixed_point x\<close> is the fixed-point decimal notation of a value;
  \<^item> \<open>Number_of_string s\<close> is the unary plus \<open>+s\<close>;
  \<^item> \<open>Math_pow10 d\<close> is \<open>Math.pow(10, d)\<close>.
\<close>

record 'n platform =
  BigNumber_of_string :: "string \<Rightarrow> bignumber"
  BigNumber_of_number :: "'n \<Rightarrow> bignumber"
  fixed_point :: "bignumber \<Rightarrow> string"
  Number_of_string :: "string \<Rightarrow> 'n"
  Math_pow10 :: "nat \<Rightarrow> 'n"

text \<open>\<open>new BigNumber(v)\<close> for a value read from a contract: \<open>undefined\<close> and
  \<open>null\<close> give \<open>NaN\<close>.\<close>

definition new_BigNumber :: "'n platform \<Rightarrow> jsval \<Rightarrow> bignumber" where
  "new_BigNumber pf v = (case v of JString s \<Rightarrow> BigNumber_of_string pf s | _ \<Rightarrow> BNaN)"

definition toString10 :: "'n platform \<Rightarrow> bignumber \<Rightarrow> string" where
  "toString10 pf x = fixed_point pf (rounded x)"

section \<open>\<open>totalSupply\<close> and \<open>calcTransactionAmount\<close>\<close>

text \<open>
  The value \<open>totalSupply\<close> returns for a successful read:
  \<^verbatim>\<open>+new BigNumber(totalSupply)
    .dividedBy(new BigNumber(10).pow(tokenDecimals))
    .toString(10)\<close>
\<close>

definition unscale :: "'n platform \<Rightarrow> jsval \<Rightarrow> nat \<Rightarrow> 'n" where
  "unscale pf supply tokenDecimals =
     Number_of_string pf (toString10 pf (dividedBy_pow10 (new_BigNumber pf supply) tokenDecimals))"

text \<open>
  \<^verbatim>\<open>async totalSupply(tokenAddress, abi, tokenDecimals) {
    const contract = this.getContract(tokenAddress, abi);
    const totalSupply = await contract.methods.totalSupply().call();
    return +new BigNumber(totalSupply)...;
  }\<close>
  \<open>Inl\<close> is the rejection of the returned promise.
\<close>

definition totalSupply ::
  "'n platform \<Rightarrow> MetamaskService \<Rightarrow> string \<Rightarrow> method_descriptor list \<Rightarrow> nat \<Rightarrow>
   (js_error + 'n) \<times> event list" where
  "totalSupply pf svc tokenAddress abi tokenDecimals =
     (case call_totalSupply (web3Provider svc) tokenAddress abi of
        Inl e \<Rightarrow> (Inl e, [Call_totalSupply tokenAddress])
      | Inr ts \<Rightarrow> (Inr (unscale pf ts tokenDecimals), [Call_totalSupply tokenAddress]))"

text \<open>
  \<^verbatim>\<open>calcTransactionAmount(amount: number, tokenDecimal: number) {
    return new BigNumber(amount).times(Math.pow(10, tokenDecimal)).toString(10);
  }\<close>
\<close>

definition calcTransactionAmount :: "'n platform \<Rightarrow> 'n \<Rightarrow> nat \<Rightarrow> string" where
  "calcTransactionAmount pf amount tokenDecimal =
     toString10 pf (times_bn (BigNumber_of_number pf amount)
                             (BigNumber_of_number pf (Math_pow10 pf tokenDecimal)))"

section \<open>\<open>sendTransaction\<close>, \<open>checkTokenAllowance\<close>, \<open>approveToken\<close>, \<open>createTransaction\<close>\<close>

text \<open>
  \<^verbatim>\<open>sendTransaction(transactionConfig: any) {
    return this.wallet.request({ method: 'eth_sendTransaction', params: [transactionConfig] });
  }\<close>
\<close>

definition sendTransaction ::
  "MetamaskService \<Rightarrow> transactionConfig \<Rightarrow> (js_error, jsval) outcome \<times> event list" where
  "sendTransaction svc transactionConfig =
     (case wallet svc of
        None \<Rightarrow> (Threw TypeError, [])
      | Some w \<Rightarrow>
          (case request_eth_sendTransaction w transactionConfig of
             Inl e \<Rightarrow> (Rejected e, [Request_eth_sendTransaction transactionConfig])
           | Inr v \<Rightarrow> (Resolved v, [Request_eth_sendTransaction transactionConfig])))"

text \<open>
  \<^verbatim>\<open>async checkTokenAllowance(tokenAddress, contract, abi, tokenDecimals, walletAddress?) {
    const walletAdr = walletAddress || this.walletAddress;
    try {
      let result = await contract.methods.allowance(walletAdr, tokenAddress).call();
      const totalSupply = await this.totalSupply(tokenAddress, abi, tokenDecimals);
      result = result ? result.toString(10) : result;
      result = result === '0' ? null : result;
      if (result && new BigNumber(result).minus(totalSupply).isPositive()) {
        return true;
      } else {
        return false;
      }
    } catch (error) {
      return false;
    }
  }\<close>
  On a string \<open>toString(10)\<close> is the identity.
\<close>

fun string_toString :: "jsval \<Rightarrow> jsval" where
  "string_toString (JString s) = JString s"
| "string_toString v = v"

definition allowance_exceeds :: "'n platform \<Rightarrow> jsval \<Rightarrow> 'n \<Rightarrow> bool" where
  "allowance_exceeds pf result0 supply =
     (let result1 = (if truthy result0 then string_toString result0 else result0);
          result2 = (if result1 = JString ''0'' then JNull else result1)
      in truthy result2 \<and>
         isPositive (minus_bn (new_BigNumber pf result2) (BigNumber_of_number pf supply)))"

definition checkTokenAllowance ::
  "'n platform \<Rightarrow> MetamaskService \<Rightarrow> string \<Rightarrow> contract \<Rightarrow> method_descriptor list \<Rightarrow> nat \<Rightarrow>
   string option \<Rightarrow> (js_error, bool) outcome \<times> event list" where
  "checkTokenAllowance pf svc tokenAddress contract abi tokenDecimals walletAddress_arg =
     (let walletAdr = js_or walletAddress_arg (walletAddress svc) in
      case call_allowance contract walletAdr tokenAddress of
        Inl error \<Rightarrow> (Resolved False, [Call_allowance walletAdr tokenAddress])
      | Inr result \<Rightarrow>
          (case totalSupply pf svc tokenAddress abi tokenDecimals of
             (Inl error, evs) \<Rightarrow> (Resolved False, Call_allowance walletAdr tokenAddress # evs)
           | (Inr ts, evs) \<Rightarrow>
               (Resolved (allowance_exceeds pf result ts),
                Call_allowance walletAdr tokenAddress # evs)))"

text \<open>
  \<^verbatim>\<open>async approveToken(tokenAddress, abi, tokenDecimals, walletAddress?) {
    try {
      const totalSupply = await this.totalSupply(tokenAddress, abi, tokenDecimals);
      const approveMethod = this.getMethodInterface(abi, 'approve');
      const approveSignature = this.encodeFunctionCall(approveMethod, [
        tokenAddress,
        this.calcTransactionAmount(totalSupply, tokenDecimals),
      ]);
      return this.sendTransaction({
        from: walletAddress || this.walletAddress,
        to: tokenAddress,
        data: approveSignature,
      });
    } catch (error) {
      return error;
    }
  }\<close>
  The promise resolves with \<open>Inl error\<close> when the \<open>catch\<close> block returns the error it
  caught, and with \<open>Inr v\<close> when the wallet answers \<open>v\<close>. The promise that
  \<open>sendTransaction\<close> returns is returned without \<open>await\<close>, so its rejection is not
  caught and becomes the rejection of \<open>approveToken\<close>; a synchronous throw of
  \<open>sendTransaction\<close> is caught.
\<close>

definition approveToken ::
  "'n platform \<Rightarrow> MetamaskService \<Rightarrow> string \<Rightarrow> method_descriptor list \<Rightarrow> nat \<Rightarrow>
   string option \<Rightarrow> (js_error, js_error + jsval) outcome \<times> event list" where
  "approveToken pf svc tokenAddress abi tokenDecimals walletAddress_arg =
     (case totalSupply pf svc tokenAddress abi tokenDecimals of
        (Inl error, evs) \<Rightarrow> (Resolved (Inl error), evs)
      | (Inr ts, evs) \<Rightarrow>
          (let approveMethod = getMethodInterface abi ''approve'' in
           case encodeFunctionCall (web3Provider svc) approveMethod
                  [JString tokenAddress, JString (calcTransactionAmount pf ts tokenDecimals)] of
             Inl error \<Rightarrow> (Resolved (Inl error), evs)
           | Inr approveSignature \<Rightarrow>
               (case sendTransaction svc
                       \<lparr>tx_from = js_or walletAddress_arg (walletAddress svc),
                        tx_to = tokenAddress, tx_data = approveSignature, tx_value = None\<rparr> of
                  (Threw error, evs') \<Rightarrow> (Resolved (Inl error), evs @ evs')
                | (Rejected error, evs') \<Rightarrow> (Rejected error, evs @ evs')
                | (Resolved v, evs') \<Rightarrow> (Resolved (Inr v), evs @ evs'))))"

text \<open>
  \<^verbatim>\<open>createTransaction(abi, method, data, tokenAddress, walletAddress?, value?) {
    const transactionMethod = this.getMethodInterface(abi, method);
    const approveSignature = this.encodeFunctionCall(transactionMethod, data);
    return this.sendTransaction({
      from: walletAddress || this.walletAddress,
      to: tokenAddress,
      data: approveSignature,
      value: value ? value : '',
    });
  }\<close>
  The function is not \<open>async\<close>: an error thrown while encoding leaves it as a
  synchronous exception.
\<close>

definition createTransaction ::
  "MetamaskService \<Rightarrow> method_descriptor list \<Rightarrow> string \<Rightarrow> jsval list \<Rightarrow> string \<Rightarrow>
   string option \<Rightarrow> jsval \<Rightarrow> (js_error, jsval) outcome \<times> event list" where
  "createTransaction svc abi method data tokenAddress walletAddress_arg val =
     (let transactionMethod = getMethodInterface abi method in
      case encodeFunctionCall (web3Provider svc) transactionMethod data of
        Inl error \<Rightarrow> (Threw error, [])
      | Inr approveSignature \<Rightarrow>
          sendTransaction svc
            \<lparr>tx_from = js_or walletAddress_arg (walletAddress svc),
             tx_to = tokenAddress, tx_data = approveSignature,
             tx_value = Some (if truthy val then val else JString [])\<rparr>)"

text \<open>
  \<open>approveToken\<close> suspends at \<open>await this.totalSupply(...)\<close>. The read is issued on
  the service object as it is when \<open>approveToken\<close> is called (\<open>svc\<close>); everything
  after the \<open>await\<close>, in particular the read of \<open>this.walletAddress\<close> for the
  \<open>from\<close> field, runs when the read has completed, on the service object as it is
  then (\<open>svc'\<close>). Other calls on the same object, such as a \<open>getAccount\<close>, may have
  run in between. \<open>approveToken\<close> above is the run in which nothing else happens
  while the read is pending.
\<close>

definition approveToken_resumed ::
  "'n platform \<Rightarrow> MetamaskService \<Rightarrow> MetamaskService \<Rightarrow> string \<Rightarrow> method_descriptor list \<Rightarrow>
   nat \<Rightarrow> string option \<Rightarrow> (js_error, js_error + jsval) outcome \<times> event list" where
  "approveToken_resumed pf svc svc' tokenAddress abi tokenDecimals walletAddress_arg =
     (case totalSupply pf svc tokenAddress abi tokenDecimals of
        (Inl error, evs) \<Rightarrow> (Resolved (Inl error), evs)
      | (Inr ts, evs) \<Rightarrow>
          (let approveMethod = getMethodInterface abi ''approve'' in
           case encodeFunctionCall (web3Provider svc') approveMethod
                  [JString tokenAddress, JString (calcTransactionAmount pf ts tokenDecimals)] of
             Inl error \<Rightarrow> (Resolved (Inl error), evs)
           | Inr approveSignature \<Rightarrow>
               (case sendTransaction svc'
                       \<lparr>tx_from = js_or walletAddress_arg (walletAddress svc'),
                        tx_to = tokenAddress, tx_data = approveSignature, tx_value = None\<rparr> of
                  (Threw error, evs') \<Rightarrow> (Resolved (Inl error), evs @ evs')
                | (Rejected error, evs') \<Rightarrow> (Rejected error, evs @ evs')
                | (Resolved v, evs') \<Rightarrow> (Resolved (Inr v), evs @ evs'))))"

section \<open>Reachability and classification of effects\<close>

text \<open>A service object on which no \<open>getAccount\<close> has succeeded yet: it comes from
  the constructor, possibly followed by calls of \<open>getAccount\<close> that did not resolve.\<close>

inductive never_connected :: "MetamaskService \<Rightarrow> bool" where
  constructed: "new_MetamaskService cfg ethereum w3 = Inr svc \<Longrightarrow> never_connected svc"
| not_resolved: "never_connected svc \<Longrightarrow> getAccount svc = (out, svc', evs) \<Longrightarrow>
     (\<forall>r. out \<noteq> Resolved r) \<Longrightarrow> never_connected svc'"

text \<open>The events that only read from the chain.\<close>

fun is_read_call :: "event \<Rightarrow> bool" where
  "is_read_call (Call_totalSupply a) = True"
| "is_read_call (Call_allowance owner spender) = True"
| "is_read_call _ = False"

section \<open>A reference platform and concrete inputs\<close>

text \<open>
  To run the model on concrete inputs the platform parameter is instantiated with exact
  decimals: a native number is the decimal value it prints as, strings in plain decimal
  notation are read exactly, and \<open>Math.pow(10, d)\<close> is \<open>10 ^ d\<close>. JavaScript agrees
  with this platform on the numbers used below, which are integers far below \<open>2 ^ 53\<close>,
  decimals of a few digits, and powers of ten up to \<open>10 ^ 22\<close> (all of these convert
  to a double and back to their shortest decimal notation unchanged). Strings that are
  not in plain decimal notation are outside this instance and read as \<open>NaN\<close>.
\<close>

definition digit_char :: "int \<Rightarrow> char" where
  "digit_char n = ''0123456789'' ! nat n"

function digits_of_int :: "int \<Rightarrow> string" where
  "digits_of_int n =
     (if n < 10 then [digit_char n] else digits_of_int (n div 10) @ [digit_char (n mod 10)])"
  by pat_completeness auto
termination
  by (relation "measure nat") auto

definition digit_value :: "char \<Rightarrow> int option" where
  "digit_value c = map_of (zip ''0123456789'' [0, 1, 2, 3, 4, 5, 6, 7, 8, 9]) c"

fun int_of_digits :: "int \<Rightarrow> string \<Rightarrow> int option" where
  "int_of_digits acc [] = Some acc"
| "int_of_digits acc (c # cs) =
     (case digit_value c of None \<Rightarrow> None | Some v \<Rightarrow> int_of_digits (10 * acc + v) cs)"

text \<open>The digits after the decimal point of \<open>m / 10 ^ 20\<close>, for \<open>0 \<le> m < 10 ^ 20\<close>,
  without trailing zeros.\<close>

definition fraction_digits :: "int \<Rightarrow> string" where
  "fraction_digits m =
     rev (dropWhile (\<lambda>c. c = CHR ''0'') (rev (tl (digits_of_int (10 ^ 20 + m)))))"

text \<open>Fixed-point notation of a value with at most 20 decimal places.\<close>

definition fixed_point_of_rat :: "rat \<Rightarrow> string" where
  "fixed_point_of_rat x =
     (let m = \<lfloor>\<bar>x\<bar> * 10 ^ 20\<rfloor>;
          frac = fraction_digits (m mod 10 ^ 20)
      in (if x < 0 then ''-'' else []) @ digits_of_int (m div 10 ^ 20) @
         (if frac = [] then [] else CHR ''.'' # frac))"

fun fixed_point_of :: "bignumber \<Rightarrow> string" where
  "fixed_point_of BNaN = ''NaN''"
| "fixed_point_of (BNum x) = fixed_point_of_rat x"

text \<open>Reading plain decimal notation: digits, optionally a point and more digits.\<close>

definition unsigned_decimal :: "string \<Rightarrow> rat option" where
  "unsigned_decimal s =
     (let ip = takeWhile (\<lambda>c. c \<noteq> CHR ''.'') s;
          rest = dropWhile (\<lambda>c. c \<noteq> CHR ''.'') s
      in if ip = [] then None
         else (case int_of_digits 0 ip of
                 None \<Rightarrow> None
               | Some i \<Rightarrow>
                   (case rest of
                      [] \<Rightarrow> Some (of_int i)
                    | _ # fp \<Rightarrow>
                        (if fp = [] then None
                         else (case int_of_digits 0 fp of
                                 None \<Rightarrow> None
                               | Some f \<Rightarrow> Some (of_int i + of_int f / 10 ^ length fp))))))"

definition decimal_value :: "string \<Rightarrow> bignumber" where
  "decimal_value s =
     (case s of
        [] \<Rightarrow> BNaN
      | c # cs \<Rightarrow>
          (if c = CHR ''-''
           then (case unsigned_decimal cs of None \<Rightarrow> BNaN | Some x \<Rightarrow> BNum (- x))
           else (case unsigned_decimal s of None \<Rightarrow> BNaN | Some x \<Rightarrow> BNum x)))"

definition exact_platform :: "bignumber platform" where
  "exact_platform =
     \<lparr>BigNumber_of_string = decimal_value,
      BigNumber_of_number = (\<lambda>v. v),
      fixed_point = fixed_point_of,
      Number_of_string = decimal_value,
      Math_pow10 = (\<lambda>d. BNum (10 ^ d))\<rparr>"

text \<open>A wallet that answers every request: its cached and its probed chain id are
  given, it grants one account and accepts every transaction.\<close>

definition test_wallet :: "string option \<Rightarrow> string \<Rightarrow> wallet" where
  "test_wallet cached probed =
     \<lparr>chainId = cached,
      request_eth_chainId = Inr probed,
      request_eth_requestAccounts = Inr [''0xA11CE''],
      request_eth_sendTransaction = (\<lambda>tx. Inr (JString ''0xHASH''))\<rparr>"

text \<open>A codec that throws a \<open>TypeError\<close> on an \<open>undefined\<close> descriptor and an
  error on a wrong number of arguments, and a token whose \<open>totalSupply()\<close> reads as the
  given string.\<close>

fun arg_text :: "jsval \<Rightarrow> string" where
  "arg_text (JString s) = CHR '','' # s"
| "arg_text _ = '',?''"

definition test_encode :: "method_descriptor option \<Rightarrow> jsval list \<Rightarrow> js_error + string" where
  "test_encode m data =
     (case m of
        None \<Rightarrow> Inl TypeError
      | Some d \<Rightarrow>
          if length data = length (inputs d)
          then Inr (String_undefined (name d) @ concat (map arg_text data))
          else Inl (Error ''EncodingError''))"

definition test_web3 :: "string \<Rightarrow> web3" where
  "test_web3 supply =
     \<lparr>encodeFunctionCall = test_encode,
      call_totalSupply = (\<lambda>tokenAddress abi. Inr (JString supply))\<rparr>"

definition test_contract :: "jsval \<Rightarrow> contract" where
  "test_contract allowance = \<lparr>call_allowance = (\<lambda>owner spender. Inr allowance)\<rparr>"

definition erc20_abi :: "method_descriptor list" where
  "erc20_abi =
     [\<lparr>name = None, inputs = []\<rparr>,
      \<lparr>name = Some ''totalSupply'', inputs = []\<rparr>,
      \<lparr>name = Some ''approve'', inputs = [''address'', ''uint256'']\<rparr>,
      \<lparr>name = Some ''transfer'', inputs = [''address'', ''uint256'']\<rparr>]"

text \<open>The service object the constructor builds for a ropsten session, with the given
  wallet and total supply.\<close>

definition test_service :: "wallet \<Rightarrow> string \<Rightarrow> MetamaskService" where
  "test_service w supply =
     \<lparr>wallet = Some w, web3Provider = test_web3 supply, testnet = Some ''ropsten'',
      isProduction = False, walletAddress = Some []\<rparr>"

section \<open>Properties of the ABI lookup\<close>

lemma getMethodInterface_None_iff:
  "getMethodInterface abi q = None \<longleftrightarrow> (\<forall>m \<in> set abi. name m \<noteq> Some q)"
proof -
  have "getMethodInterface abi q = None \<longleftrightarrow> filter (\<lambda>m. name m = Some q) abi = []"
    by (simp add: getMethodInterface_def split: list.splits)
  then show ?thesis
    by (simp add: filter_empty_conv)
qed

lemma filter_first_split:
  "filter P xs = m # rest \<Longrightarrow>
   \<exists>pre post. xs = pre @ m # post \<and> P m \<and> (\<forall>x \<in> set pre. \<not> P x)"
proof (induction xs)
  case Nil
  then show ?case by simp
next
  case (Cons x xs)
  show ?case
  proof (cases "P x")
    case True
    with Cons.prems have "x = m" by simp
    with True have "x # xs = [] @ m # xs \<and> P m \<and> (\<forall>y \<in> set []. \<not> P y)" by simp
    then show ?thesis by blast
  next
    case False
    with Cons.prems have "filter P xs = m # rest" by simp
    from Cons.IH [OF this] obtain pre post
      where "xs = pre @ m # post" "P m" "\<forall>y \<in> set pre. \<not> P y" by blast
    with False have "x # xs = (x # pre) @ m # post \<and> P m \<and> (\<forall>y \<in> set (x # pre). \<not> P y)"
      by simp
    then show ?thesis by blast
  qed
qed

text \<open>
  Claim C3 (as amended). For every ABI list and method name, \<open>getMethodInterface\<close>
  returns the first descriptor whose name equals the query exactly when at least one
  entry matches; when no entry matches (in particular for the empty ABI) it returns
  \<open>undefined\<close>: there is no error value and nothing is raised.
\<close>

theorem getMethodInterface_first_match:
  "(getMethodInterface abi q = None \<longleftrightarrow> (\<forall>m \<in> set abi. name m \<noteq> Some q)) \<and>
   (\<forall>m. getMethodInterface abi q = Some m \<longrightarrow>
      (\<exists>pre post. abi = pre @ m # post \<and> name m = Some q \<and>
         (\<forall>x \<in> set pre. name x \<noteq> Some q)))"
proof (intro conjI allI impI)
  show "getMethodInterface abi q = None \<longleftrightarrow> (\<forall>m \<in> set abi. name m \<noteq> Some q)"
    by (rule getMethodInterface_None_iff)
next
  fix m
  assume "getMethodInterface abi q = Some m"
  then obtain rest where "filter (\<lambda>m. name m = Some q) abi = m # rest"
    by (auto simp: getMethodInterface_def split: list.splits)
  from filter_first_split [OF this]
  show "\<exists>pre post. abi = pre @ m # post \<and> name m = Some q \<and>
          (\<forall>x \<in> set pre. name x \<noteq> Some q)"
    by blast
qed

theorem getMethodInterface_first_match_witness:
  "getMethodInterface
     [\<lparr>name = Some ''transfer'', inputs = []\<rparr>,
      \<lparr>name = Some ''approve'', inputs = [''address'', ''uint256'']\<rparr>,
      \<lparr>name = Some ''approve'', inputs = []\<rparr>] ''approve''
     = Some \<lparr>name = Some ''approve'', inputs = [''address'', ''uint256'']\<rparr> \<and>
   (\<exists>pre post.
      [\<lparr>name = Some ''transfer'', inputs = []\<rparr>,
       \<lparr>name = Some ''approve'', inputs = [''address'', ''uint256'']\<rparr>,
       \<lparr>name = Some ''approve'', inputs = []\<rparr>]
        = pre @ \<lparr>name = Some ''approve'', inputs = [''address'', ''uint256'']\<rparr> # post \<and>
      (\<forall>x \<in> set pre. name x \<noteq> Some ''approve''))"
proof -
  let ?abi = "[\<lparr>name = Some ''transfer'', inputs = []\<rparr>,
               \<lparr>name = Some ''approve'', inputs = [''address'', ''uint256'']\<rparr>,
               \<lparr>name = Some ''approve'', inputs = []\<rparr>]"
  let ?m = "\<lparr>name = Some ''approve'', inputs = [''address'', ''uint256'']\<rparr>"
  have found: "getMethodInterface ?abi ''approve'' = Some ?m"
    by (simp add: getMethodInterface_def)
  from getMethodInterface_first_match [of ?abi "''approve''"] found
  have "\<exists>pre post. ?abi = pre @ ?m # post \<and> name ?m = Some ''approve'' \<and>
          (\<forall>x \<in> set pre. name x \<noteq> Some ''approve'')"
    by blast
  with found show ?thesis by blast
qed

text \<open>
  Counterexample to claim C3 as stated: for an empty ABI, and for an ABI without the
  method, the lookup does not fail; it returns \<open>undefined\<close>.
\<close>

theorem getMethodInterface_returns_undefined:
  "getMethodInterface [] ''approve'' = None \<and>
   getMethodInterface [\<lparr>name = Some ''transfer'', inputs = []\<rparr>, \<lparr>name = None, inputs = []\<rparr>]
     ''approve'' = None"
  by (simp add: getMethodInterface_def)

section \<open>Properties of the change handlers\<close>

lemma chainChanged_same: "String_null (localStorage p ''chainId'') = v \<Longrightarrow> chainChanged v p = p"
  by (simp add: chainChanged_def)

lemma chainChanged_differs:
  "String_null (localStorage p ''chainId'') \<noteq> v \<Longrightarrow>
   chainChanged v p = p\<lparr>localStorage := (localStorage p)(''chainId'' \<mapsto> v),
                         effects := effects p @ [SetItem ''chainId'' v, Reload]\<rparr>"
  by (simp add: chainChanged_def)

lemma chainChanged_stored: "String_null (localStorage (chainChanged v p) ''chainId'') = v"
  by (simp add: chainChanged_def String_null_def)

lemma chainChanged_idem: "chainChanged v (chainChanged v p) = chainChanged v p"
  by (rule chainChanged_same) (rule chainChanged_stored)

lemma hex_chain_id_not_null: "''0x'' @ digits \<noteq> ''null''"
  by simp

text \<open>
  Claim C9. For every \<open>chainChanged\<close> event carrying a chain id \<open>v\<close> different from
  the persisted chain id, also when none is persisted yet, the handler persists the new
  value and reloads the page exactly once; firing the same value a second time changes
  nothing: no write and no second reload. A chain id is a hexadecimal string such as
  \<open>0x1\<close>; all the proof uses of this is that it is not the text \<open>null\<close>, which is
  how the handler reads a chain id that was never persisted.
\<close>

theorem chainChanged_invalidates_once:
  assumes "localStorage p ''chainId'' \<noteq> Some v" and "v \<noteq> ''null''"
  shows "chainChanged v p = p\<lparr>localStorage := (localStorage p)(''chainId'' \<mapsto> v),
                               effects := effects p @ [SetItem ''chainId'' v, Reload]\<rparr> \<and>
         chainChanged v (chainChanged v p) = chainChanged v p"
proof -
  from assms have "String_null (localStorage p ''chainId'') \<noteq> v"
    by (cases "localStorage p ''chainId''") (simp_all add: String_null_def)
  then have "chainChanged v p = p\<lparr>localStorage := (localStorage p)(''chainId'' \<mapsto> v),
                               effects := effects p @ [SetItem ''chainId'' v, Reload]\<rparr>"
    by (rule chainChanged_differs)
  moreover have "chainChanged v (chainChanged v p) = chainChanged v p"
    by (rule chainChanged_idem)
  ultimately show ?thesis ..
qed

theorem chainChanged_invalidates_once_witness:
  "chainChanged ''0x3'' \<lparr>localStorage = [''chainId'' \<mapsto> ''0x1''], effects = []\<rparr>
     = \<lparr>localStorage = [''chainId'' \<mapsto> ''0x3''],
        effects = [SetItem ''chainId'' ''0x3'', Reload]\<rparr> \<and>
   chainChanged ''0x3'' (chainChanged ''0x3'' \<lparr>localStorage = [''chainId'' \<mapsto> ''0x1''], effects = []\<rparr>)
     = \<lparr>localStorage = [''chainId'' \<mapsto> ''0x3''],
        effects = [SetItem ''chainId'' ''0x3'', Reload]\<rparr> \<and>
   chainChanged ''0x1'' \<lparr>localStorage = Map.empty, effects = []\<rparr>
     = \<lparr>localStorage = [''chainId'' \<mapsto> ''0x1''],
        effects = [SetItem ''chainId'' ''0x1'', Reload]\<rparr> \<and>
   chainChanged ''0x1'' (chainChanged ''0x1'' \<lparr>localStorage = Map.empty, effects = []\<rparr>)
     = \<lparr>localStorage = [''chainId'' \<mapsto> ''0x1''],
        effects = [SetItem ''chainId'' ''0x1'', Reload]\<rparr>"
proof -
  let ?p = "\<lparr>localStorage = [''chainId'' \<mapsto> ''0x1''], effects = []\<rparr>"
  let ?q = "\<lparr>localStorage = Map.empty, effects = []\<rparr> :: page"
  have "localStorage ?p ''chainId'' \<noteq> Some ''0x3''" and "''0x3'' \<noteq> ''null''"
    by simp_all
  from chainChanged_invalidates_once [OF this]
  have first: "chainChanged ''0x3'' ?p = ?p\<lparr>localStorage := (localStorage ?p)(''chainId'' \<mapsto> ''0x3''),
                  effects := effects ?p @ [SetItem ''chainId'' ''0x3'', Reload]\<rparr>"
    and again: "chainChanged ''0x3'' (chainChanged ''0x3'' ?p) = chainChanged ''0x3'' ?p"
    by blast+
  from first have p3: "chainChanged ''0x3'' ?p
      = \<lparr>localStorage = [''chainId'' \<mapsto> ''0x3''], effects = [SetItem ''chainId'' ''0x3'', Reload]\<rparr>"
    by simp
  have "localStorage ?q ''chainId'' \<noteq> Some ''0x1''" and "''0x1'' \<noteq> ''null''"
    by simp_all
  from chainChanged_invalidates_once [OF this]
  have fresh: "chainChanged ''0x1'' ?q = ?q\<lparr>localStorage := (localStorage ?q)(''chainId'' \<mapsto> ''0x1''),
                  effects := effects ?q @ [SetItem ''chainId'' ''0x1'', Reload]\<rparr>"
    and fresh_again: "chainChanged ''0x1'' (chainChanged ''0x1'' ?q) = chainChanged ''0x1'' ?q"
    by blast+
  from fresh have q1: "chainChanged ''0x1'' ?q
      = \<lparr>localStorage = [''chainId'' \<mapsto> ''0x1''], effects = [SetItem ''chainId'' ''0x1'', Reload]\<rparr>"
    by simp
  from p3 again q1 fresh_again show ?thesis by simp
qed

text \<open>
  The second hypothesis marks the one payload the handler cannot tell from an empty
  store: with nothing persisted, the text \<open>null\<close> is taken for no change. No wallet
  sends it as a chain id.
\<close>

lemma chainChanged_null_payload:
  "chainChanged ''null'' \<lparr>localStorage = Map.empty, effects = []\<rparr>
     = \<lparr>localStorage = Map.empty, effects = []\<rparr>"
  by (simp add: chainChanged_def String_null_def)

section \<open>Properties of \<open>getAccount\<close>\<close>

text \<open>
  Claim C4, evaluated on the code. With no injected wallet the constructor throws a
  \<open>TypeError\<close>, and \<open>getAccount\<close> on a service object without a wallet throws a
  \<open>TypeError\<close> synchronously and sends no request: it reads \<open>this.wallet.chainId\<close>
  before the promise and its guard. The guard on its own would reject with the message
  that names the expected network.
\<close>

theorem getAccount_without_wallet:
  "new_MetamaskService cfg None w3 = Inl TypeError \<and>
   getAccount (svc\<lparr>wallet := None\<rparr>) = (Threw TypeError, svc\<lparr>wallet := None\<rparr>, []) \<and>
   getAccount_executor (svc\<lparr>wallet := None\<rparr>) (Some ''ropsten'') expected currentChain
     = (Rejected ''ropsten wallet is not injected'', svc\<lparr>wallet := None\<rparr>, [])"
  by (simp add: new_MetamaskService_def getAccount_def getAccount_executor_def
      String_undefined_def)

lemma networks_mainnet: "networks ''mainnet'' = Some ''0x1''"
  by (simp add: networks_def)

lemma networks_ropsten: "networks ''ropsten'' = Some ''0x3''"
  by (simp add: networks_def)

lemma requestAccounts_then_events:
  "snd (snd (requestAccounts_then svc w c)) = [Request_eth_requestAccounts]"
  by (simp add: requestAccounts_then_def split: sum.splits)

lemma requestAccounts_then_outcome:
  "fst (requestAccounts_then svc w c) =
     (case request_eth_requestAccounts w of
        Inl e \<Rightarrow> Rejected ''Not authorized''
      | Inr account \<Rightarrow> Resolved \<lparr>address = first_account account, network = c\<rparr>)"
  by (simp add: requestAccounts_then_def split: sum.splits)

lemma getAccount_mismatch:
  assumes "wallet svc = Some w" and "reports_chain w c" and "Some c \<noteq> usedChain svc"
  shows "fst (getAccount svc) \<in>
           {Rejected (''Please choose '' @ String_undefined (usedNetwork svc) @
                      '' network in metamask wallet''),
            Rejected (''Please choose '' @ String_undefined (usedNetwork svc) @
                      '' network in metamask wallet.'')} \<and>
         fst (snd (getAccount svc)) = svc \<and>
         Request_eth_requestAccounts \<notin> set (snd (snd (getAccount svc)))"
proof -
  from assms(2) consider
      (cached) "chainId w = Some c" "c \<noteq> []"
    | (probed) "chainId w = None \<or> chainId w = Some []" "request_eth_chainId w = Inr c"
    by (auto simp: reports_chain_def)
  then show ?thesis
  proof cases
    case cached
    with assms(1,3) show ?thesis
      by (simp add: getAccount_def getAccount_executor_def)
  next
    case probed
    with assms(1,3) show ?thesis
      by (auto simp: getAccount_def getAccount_executor_def probe_chainId_def)
  qed
qed

lemma getAccount_match:
  assumes "wallet svc = Some w" and "reports_chain w c" and "usedChain svc = Some c"
  shows "fst (getAccount svc) =
           (case request_eth_requestAccounts w of
              Inl e \<Rightarrow> Rejected ''Not authorized''
            | Inr account \<Rightarrow> Resolved \<lparr>address = first_account account, network = c\<rparr>) \<and>
         Request_eth_requestAccounts \<in> set (snd (snd (getAccount svc)))"
proof -
  from assms(2) consider
      (cached) "chainId w = Some c" "c \<noteq> []"
    | (probed) "chainId w = None \<or> chainId w = Some []" "request_eth_chainId w = Inr c"
    by (auto simp: reports_chain_def)
  then show ?thesis
  proof cases
    case cached
    with assms(1,3) have "getAccount svc = requestAccounts_then svc w c"
      by (simp add: getAccount_def getAccount_executor_def)
    then show ?thesis
      by (simp add: requestAccounts_then_outcome requestAccounts_then_events)
  next
    case probed
    with assms(1,3) have "getAccount svc =
        (case requestAccounts_then svc w c of
           (out, svc', evs) \<Rightarrow> (out, svc', Request_eth_chainId # evs))"
      by (auto simp: getAccount_def getAccount_executor_def probe_chainId_def)
    then show ?thesis
      using requestAccounts_then_outcome [of svc w c] requestAccounts_then_events [of svc w c]
      by (simp add: split_beta)
  qed
qed

text \<open>
  Claim C5. Let \<open>c\<close> be the chain id the wallet reports. With \<open>isProduction = true\<close>
  and \<open>c\<close> other than \<open>0x1\<close>, \<open>getAccount\<close> rejects with the wrong-network
  message for mainnet and does not request accounts. With \<open>isProduction = false\<close> and
  \<open>testnet = 'ropsten'\<close>, it requests accounts exactly when \<open>c\<close> is \<open>0x3\<close>, then
  resolving with the first account and \<open>c\<close> (or rejecting as not authorized when the
  wallet refuses), and for every other \<open>c\<close> it rejects with the wrong-network message
  for ropsten.
\<close>

theorem getAccount_network_check:
  assumes "wallet svc = Some w" and "reports_chain w c"
  shows "(isProduction svc \<and> c \<noteq> ''0x1'' \<longrightarrow>
            fst (getAccount svc) \<in>
              {Rejected ''Please choose mainnet network in metamask wallet'',
               Rejected ''Please choose mainnet network in metamask wallet.''} \<and>
            Request_eth_requestAccounts \<notin> set (snd (snd (getAccount svc)))) \<and>
         (\<not> isProduction svc \<and> testnet svc = Some ''ropsten'' \<longrightarrow>
            (Request_eth_requestAccounts \<in> set (snd (snd (getAccount svc))) \<longleftrightarrow> c = ''0x3'') \<and>
            (c = ''0x3'' \<longrightarrow>
               fst (getAccount svc) =
                 (case request_eth_requestAccounts w of
                    Inl e \<Rightarrow> Rejected ''Not authorized''
                  | Inr account \<Rightarrow> Resolved \<lparr>address = first_account account, network = c\<rparr>)) \<and>
            (c \<noteq> ''0x3'' \<longrightarrow>
               fst (getAccount svc) \<in>
                 {Rejected ''Please choose ropsten network in metamask wallet'',
                  Rejected ''Please choose ropsten network in metamask wallet.''}))"
proof (intro conjI impI)
  assume prod: "isProduction svc \<and> c \<noteq> ''0x1''"
  then have "Some c \<noteq> usedChain svc"
    by (simp add: usedChain_def networks_mainnet)
  from getAccount_mismatch [OF assms this] prod
  show "fst (getAccount svc) \<in>
          {Rejected ''Please choose mainnet network in metamask wallet'',
           Rejected ''Please choose mainnet network in metamask wallet.''}"
    and "Request_eth_requestAccounts \<notin> set (snd (snd (getAccount svc)))"
    by (simp_all add: usedNetwork_def String_undefined_def)
next
  assume test: "\<not> isProduction svc \<and> testnet svc = Some ''ropsten''"
  then have used: "usedChain svc = Some ''0x3''"
    and net: "usedNetwork svc = Some ''ropsten''"
    by (simp_all add: usedChain_def usedNetwork_def networks_ropsten)
  show "Request_eth_requestAccounts \<in> set (snd (snd (getAccount svc))) \<longleftrightarrow> c = ''0x3''"
  proof (cases "c = ''0x3''")
    case True
    with used have "usedChain svc = Some c" by simp
    from getAccount_match [OF assms this] True show ?thesis by simp
  next
    case False
    with used have "Some c \<noteq> usedChain svc" by simp
    from getAccount_mismatch [OF assms this] False show ?thesis by simp
  qed
  {
    assume "c = ''0x3''"
    with used have "usedChain svc = Some c" by simp
    from getAccount_match [OF assms this]
    show "fst (getAccount svc) =
            (case request_eth_requestAccounts w of
               Inl e \<Rightarrow> Rejected ''Not authorized''
             | Inr account \<Rightarrow> Resolved \<lparr>address = first_account account, network = c\<rparr>)"
      by simp
  }
  {
    assume "c \<noteq> ''0x3''"
    with used have "Some c \<noteq> usedChain svc" by simp
    from getAccount_mismatch [OF assms this] net
    show "fst (getAccount svc) \<in>
            {Rejected ''Please choose ropsten network in metamask wallet'',
             Rejected ''Please choose ropsten network in metamask wallet.''}"
      by (simp add: String_undefined_def)
  }
qed

theorem getAccount_network_check_witness:
  "fst (getAccount ((test_service (test_wallet (Some ''0x3'') ''0x3'') ''1000'')\<lparr>isProduction := True\<rparr>))
     \<in> {Rejected ''Please choose mainnet network in metamask wallet'',
         Rejected ''Please choose mainnet network in metamask wallet.''} \<and>
   Request_eth_requestAccounts \<in>
     set (snd (snd (getAccount (test_service (test_wallet None ''0x3'') ''1000'')))) \<and>
   fst (getAccount (test_service (test_wallet None ''0x3'') ''1000''))
     = Resolved \<lparr>address = Some ''0xA11CE'', network = ''0x3''\<rparr>"
proof -
  let ?prod = "(test_service (test_wallet (Some ''0x3'') ''0x3'') ''1000'')\<lparr>isProduction := True\<rparr>"
  let ?test = "test_service (test_wallet None ''0x3'') ''1000''"
  have p1: "wallet ?prod = Some (test_wallet (Some ''0x3'') ''0x3'')"
    and p2: "reports_chain (test_wallet (Some ''0x3'') ''0x3'') ''0x3''"
    and t1: "wallet ?test = Some (test_wallet None ''0x3'')"
    and t2: "reports_chain (test_wallet None ''0x3'') ''0x3''"
    by (simp_all add: test_service_def test_wallet_def reports_chain_def)
  have flags: "isProduction ?prod \<and> ''0x3'' \<noteq> ''0x1''"
    "\<not> isProduction ?test \<and> testnet ?test = Some ''ropsten''"
    by (simp_all add: test_service_def)
  from getAccount_network_check [OF p1 p2] getAccount_network_check [OF t1 t2] flags
  show ?thesis
    by (simp add: test_wallet_def first_account_def)
qed


section \<open>Properties of the allowance check\<close>

lemma totalSupply_events:
  "snd (totalSupply pf svc tokenAddress abi d) = [Call_totalSupply tokenAddress]"
  by (simp add: totalSupply_def split: sum.splits)

lemma allowance_exceeds_falsy:
  "\<not> truthy a \<or> a = JString ''0'' \<Longrightarrow> \<not> allowance_exceeds pf a s"
  by (cases a) (auto simp: allowance_exceeds_def Let_def)

lemma allowance_exceeds_string:
  "allowance_exceeds pf (JString str) s \<longleftrightarrow>
     str \<noteq> [] \<and> str \<noteq> ''0'' \<and>
     isPositive (minus_bn (BigNumber_of_string pf str) (BigNumber_of_number pf s))"
  by (auto simp: allowance_exceeds_def Let_def new_BigNumber_def)

lemma checkTokenAllowance_unfold:
  "checkTokenAllowance pf svc tokenAddress contract abi d wa =
     (case call_allowance contract (js_or wa (walletAddress svc)) tokenAddress of
        Inl e \<Rightarrow> (Resolved False, [Call_allowance (js_or wa (walletAddress svc)) tokenAddress])
      | Inr a \<Rightarrow>
          (case fst (totalSupply pf svc tokenAddress abi d) of
             Inl e \<Rightarrow> Resolved False
           | Inr s \<Rightarrow> Resolved (allowance_exceeds pf a s),
           [Call_allowance (js_or wa (walletAddress svc)) tokenAddress,
            Call_totalSupply tokenAddress]))"
  by (simp add: checkTokenAllowance_def totalSupply_def Let_def split: sum.splits)

lemma checkTokenAllowance_resolves:
  "\<exists>b. fst (checkTokenAllowance pf svc tokenAddress contract abi d wa) = Resolved b"
  by (auto simp: checkTokenAllowance_unfold split: sum.splits)

lemma checkTokenAllowance_read_ok:
  assumes "call_allowance contract (js_or wa (walletAddress svc)) tokenAddress = Inr a"
    and "fst (totalSupply pf svc tokenAddress abi d) = Inr s"
  shows "fst (checkTokenAllowance pf svc tokenAddress contract abi d wa)
           = Resolved (allowance_exceeds pf a s)"
  using assms by (simp add: checkTokenAllowance_unfold)

text \<open>
  Claim C8. \<open>checkTokenAllowance\<close> always resolves, with a boolean: it never throws
  and never rejects. It resolves with \<open>false\<close> whenever the allowance read fails,
  whenever the total-supply read fails, and whenever the allowance read returns the
  string \<open>0\<close> or a falsy value.
\<close>

theorem checkTokenAllowance_fails_closed:
  "(\<exists>b. fst (checkTokenAllowance pf svc tokenAddress contract abi d wa) = Resolved b) \<and>
   ((\<exists>e. call_allowance contract (js_or wa (walletAddress svc)) tokenAddress = Inl e) \<or>
    (\<exists>e. fst (totalSupply pf svc tokenAddress abi d) = Inl e) \<or>
    (\<exists>a. call_allowance contract (js_or wa (walletAddress svc)) tokenAddress = Inr a \<and>
         (a = JString ''0'' \<or> \<not> truthy a))
    \<longrightarrow> fst (checkTokenAllowance pf svc tokenAddress contract abi d wa) = Resolved False)"
proof (intro conjI impI)
  show "\<exists>b. fst (checkTokenAllowance pf svc tokenAddress contract abi d wa) = Resolved b"
    by (rule checkTokenAllowance_resolves)
next
  assume "(\<exists>e. call_allowance contract (js_or wa (walletAddress svc)) tokenAddress = Inl e) \<or>
    (\<exists>e. fst (totalSupply pf svc tokenAddress abi d) = Inl e) \<or>
    (\<exists>a. call_allowance contract (js_or wa (walletAddress svc)) tokenAddress = Inr a \<and>
         (a = JString ''0'' \<or> \<not> truthy a))"
  then consider
      (allowance_fails) e where
        "call_allowance contract (js_or wa (walletAddress svc)) tokenAddress = Inl e"
    | (supply_fails) e where "fst (totalSupply pf svc tokenAddress abi d) = Inl e"
    | (none) a where
        "call_allowance contract (js_or wa (walletAddress svc)) tokenAddress = Inr a"
        "a = JString ''0'' \<or> \<not> truthy a"
    by blast
  then show "fst (checkTokenAllowance pf svc tokenAddress contract abi d wa) = Resolved False"
  proof cases
    case allowance_fails
    then show ?thesis
      by (simp add: checkTokenAllowance_unfold)
  next
    case supply_fails
    then show ?thesis
      by (simp add: checkTokenAllowance_unfold split: sum.splits)
  next
    case none
    have no: "\<not> allowance_exceeds pf a s" for s
      using none(2) by (intro allowance_exceeds_falsy) blast
    show ?thesis
    proof (cases "fst (totalSupply pf svc tokenAddress abi d)")
      case (Inl e)
      then show ?thesis
        by (simp add: checkTokenAllowance_unfold split: sum.splits)
    next
      case (Inr s)
      from checkTokenAllowance_read_ok [OF none(1) Inr] no show ?thesis by simp
    qed
  qed
qed

theorem checkTokenAllowance_fails_closed_witness:
  "fst (checkTokenAllowance exact_platform (test_service (test_wallet None ''0x3'') ''1000'')
         ''0xT0KEN'' (test_contract (JString ''0'')) erc20_abi 0 None) = Resolved False \<and>
   fst (checkTokenAllowance exact_platform (test_service (test_wallet None ''0x3'') ''1000'')
         ''0xT0KEN'' \<lparr>call_allowance = (\<lambda>owner spender. Inl (Error ''revert''))\<rparr> erc20_abi 0 None)
     = Resolved False"
proof -
  let ?svc = "test_service (test_wallet None ''0x3'') ''1000''"
  have zero: "\<exists>a. call_allowance (test_contract (JString ''0'')) (js_or None (walletAddress ?svc)) ''0xT0KEN''
                = Inr a \<and> (a = JString ''0'' \<or> \<not> truthy a)"
    by (simp add: test_contract_def)
  have fails: "\<exists>e. call_allowance \<lparr>call_allowance = (\<lambda>owner spender. Inl (Error ''revert''))\<rparr>
                 (js_or None (walletAddress ?svc)) ''0xT0KEN'' = Inl e"
    by simp
  from zero fails
    checkTokenAllowance_fails_closed [of exact_platform ?svc "''0xT0KEN''"
      "test_contract (JString ''0'')" erc20_abi 0 None]
    checkTokenAllowance_fails_closed [of exact_platform ?svc "''0xT0KEN''"
      "\<lparr>call_allowance = (\<lambda>owner spender. Inl (Error ''revert''))\<rparr>" erc20_abi 0 None]
  show ?thesis by blast
qed

text \<open>
  Claim C2 (as amended). Let the allowance read return the string \<open>str\<close> with value
  \<open>x\<close>, and let \<open>totalSupply\<close> yield the native number \<open>s\<close> with value \<open>y\<close>
  (the total supply divided by \<open>10 ^ tokenDecimals\<close>). Then the check returns true
  if and only if \<open>str\<close> is not empty, is not the string \<open>0\<close>, and \<open>x\<close> is at
  least \<open>y\<close>: the difference must not be negative, so equality passes.
\<close>

theorem checkTokenAllowance_true_iff:
  assumes "call_allowance contract (js_or wa (walletAddress svc)) tokenAddress = Inr (JString str)"
    and "fst (totalSupply pf svc tokenAddress abi d) = Inr s"
    and "BigNumber_of_string pf str = BNum x"
    and "BigNumber_of_number pf s = BNum y"
  shows "fst (checkTokenAllowance pf svc tokenAddress contract abi d wa)
           = Resolved (str \<noteq> [] \<and> str \<noteq> ''0'' \<and> y \<le> x)"
  using checkTokenAllowance_read_ok [OF assms(1,2)] assms(3,4)
  by (simp add: allowance_exceeds_string)

lemma unscale_5: "unscale exact_platform (JString ''5'') 0 = BNum 5"
  by code_simp

lemma decimal_value_5: "decimal_value ''5'' = BNum 5"
  by code_simp

lemma unscale_7: "unscale exact_platform (JString ''7'') 0 = BNum 7"
  by code_simp

text \<open>
  Counterexample to claim C2 as stated: the allowance and the total supply both read
  \<open>5\<close> (with no decimals); the allowance does not strictly exceed the reference value,
  and the check returns true.
\<close>

theorem checkTokenAllowance_equal_is_true:
  "call_allowance (test_contract (JString ''5'')) None ''0xT0KEN'' = Inr (JString ''5'') \<and>
   totalSupply exact_platform (test_service (test_wallet None ''0x3'') ''5'') ''0xT0KEN'' erc20_abi 0
     = (Inr (BNum 5), [Call_totalSupply ''0xT0KEN'']) \<and>
   BigNumber_of_string exact_platform ''5'' = BNum 5 \<and>
   fst (checkTokenAllowance exact_platform (test_service (test_wallet None ''0x3'') ''5'')
         ''0xT0KEN'' (test_contract (JString ''5'')) erc20_abi 0 None) = Resolved True"
proof -
  let ?svc = "test_service (test_wallet None ''0x3'') ''5''"
  have ts: "totalSupply exact_platform ?svc ''0xT0KEN'' erc20_abi 0
              = (Inr (BNum 5), [Call_totalSupply ''0xT0KEN''])"
    by (simp add: totalSupply_def test_service_def test_web3_def unscale_5)
  have al: "call_allowance (test_contract (JString ''5'')) (js_or None (walletAddress ?svc)) ''0xT0KEN''
              = Inr (JString ''5'')"
    by (simp add: test_contract_def)
  have bn: "BigNumber_of_string exact_platform ''5'' = BNum 5"
    by (simp add: exact_platform_def decimal_value_5)
  have "fst (checkTokenAllowance exact_platform ?svc ''0xT0KEN'' (test_contract (JString ''5''))
               erc20_abi 0 None) = Resolved (allowance_exceeds exact_platform (JString ''5'') (BNum 5))"
    by (rule checkTokenAllowance_read_ok [OF al]) (simp add: ts)
  moreover have "allowance_exceeds exact_platform (JString ''5'') (BNum 5)"
    by (simp add: allowance_exceeds_string bn) (simp add: exact_platform_def)
  ultimately show ?thesis
    using ts bn by (simp add: test_contract_def)
qed

theorem checkTokenAllowance_true_iff_witness:
  "fst (checkTokenAllowance exact_platform (test_service (test_wallet None ''0x3'') ''7'')
         ''0xT0KEN'' (test_contract (JString ''5'')) erc20_abi 0 None) = Resolved False \<and>
   fst (checkTokenAllowance exact_platform (test_service (test_wallet None ''0x3'') ''5'')
         ''0xT0KEN'' (test_contract (JString ''7'')) erc20_abi 0 None) = Resolved True"
proof -
  let ?svc5 = "test_service (test_wallet None ''0x3'') ''5''"
  let ?svc7 = "test_service (test_wallet None ''0x3'') ''7''"
  have d5: "BigNumber_of_string exact_platform ''5'' = BNum 5"
    and d7: "BigNumber_of_string exact_platform ''7'' = BNum 7"
    by (simp add: exact_platform_def, code_simp)+
  have n5: "BigNumber_of_number exact_platform (BNum 5) = BNum 5"
    and n7: "BigNumber_of_number exact_platform (BNum 7) = BNum 7"
    by (simp_all add: exact_platform_def)
  have ts5: "fst (totalSupply exact_platform ?svc5 ''0xT0KEN'' erc20_abi 0) = Inr (BNum 5)"
    and ts7: "fst (totalSupply exact_platform ?svc7 ''0xT0KEN'' erc20_abi 0) = Inr (BNum 7)"
    by (simp_all add: totalSupply_def test_service_def test_web3_def unscale_5 unscale_7)
  have a5: "call_allowance (test_contract (JString ''5'')) (js_or None (walletAddress ?svc7)) ''0xT0KEN''
              = Inr (JString ''5'')"
    and a7: "call_allowance (test_contract (JString ''7'')) (js_or None (walletAddress ?svc5)) ''0xT0KEN''
              = Inr (JString ''7'')"
    by (simp_all add: test_contract_def)
  from checkTokenAllowance_true_iff [OF a5 ts7 d5 n7]
    checkTokenAllowance_true_iff [OF a7 ts5 d7 n5]
  show ?thesis by simp
qed


section \<open>Properties of the transaction builders\<close>

lemma sendTransaction_with_wallet:
  "wallet svc = Some w \<Longrightarrow>
   sendTransaction svc tx =
     (case request_eth_sendTransaction w tx of Inl e \<Rightarrow> Rejected e | Inr v \<Rightarrow> Resolved v,
      [Request_eth_sendTransaction tx])"
  by (simp add: sendTransaction_def split: sum.splits)

lemma sendTransaction_events:
  "set (snd (sendTransaction svc tx)) \<subseteq> {Request_eth_sendTransaction tx}"
  by (auto simp: sendTransaction_def split: option.splits sum.splits)

lemma approveToken_unfold:
  "approveToken pf svc tokenAddress abi d wa =
     (case fst (totalSupply pf svc tokenAddress abi d) of
        Inl error \<Rightarrow> (Resolved (Inl error), [Call_totalSupply tokenAddress])
      | Inr ts \<Rightarrow>
          (case encodeFunctionCall (web3Provider svc) (getMethodInterface abi ''approve'')
                  [JString tokenAddress, JString (calcTransactionAmount pf ts d)] of
             Inl error \<Rightarrow> (Resolved (Inl error), [Call_totalSupply tokenAddress])
           | Inr approveSignature \<Rightarrow>
               (case sendTransaction svc
                       \<lparr>tx_from = js_or wa (walletAddress svc),
                        tx_to = tokenAddress, tx_data = approveSignature, tx_value = None\<rparr> of
                  (Threw error, evs') \<Rightarrow> (Resolved (Inl error), [Call_totalSupply tokenAddress] @ evs')
                | (Rejected error, evs') \<Rightarrow> (Rejected error, [Call_totalSupply tokenAddress] @ evs')
                | (Resolved v, evs') \<Rightarrow> (Resolved (Inr v), [Call_totalSupply tokenAddress] @ evs'))))"
  by (simp add: approveToken_def totalSupply_def Let_def split: sum.splits)

lemma approveToken_sends:
  assumes "wallet svc = Some w"
    and "fst (totalSupply pf svc tokenAddress abi d) = Inr ts"
    and "encodeFunctionCall (web3Provider svc) (getMethodInterface abi ''approve'')
           [JString tokenAddress, JString (calcTransactionAmount pf ts d)] = Inr sig"
  shows "snd (approveToken pf svc tokenAddress abi d wa) =
           [Call_totalSupply tokenAddress,
            Request_eth_sendTransaction
              \<lparr>tx_from = js_or wa (walletAddress svc), tx_to = tokenAddress,
               tx_data = sig, tx_value = None\<rparr>]"
  using assms
  by (simp add: approveToken_unfold sendTransaction_with_wallet split: sum.splits)

lemma createTransaction_sends:
  assumes "wallet svc = Some w"
    and "encodeFunctionCall (web3Provider svc) (getMethodInterface abi method) data = Inr sig"
  shows "snd (createTransaction svc abi method data tokenAddress wa val) =
           [Request_eth_sendTransaction
              \<lparr>tx_from = js_or wa (walletAddress svc), tx_to = tokenAddress, tx_data = sig,
               tx_value = Some (if truthy val then val else JString [])\<rparr>]"
  using assms
  by (simp add: createTransaction_def sendTransaction_with_wallet Let_def split: sum.splits)

lemma checkTokenAllowance_reads_only:
  "\<forall>e \<in> set (snd (checkTokenAllowance pf svc tokenAddress contract abi d wa)). is_read_call e"
  by (simp add: checkTokenAllowance_unfold split: sum.splits)

text \<open>
  Claim C6 (as amended). For every input, \<open>checkTokenAllowance\<close> issues only read
  calls and never sends a transaction. \<open>approveToken\<close> and \<open>createTransaction\<close> submit
  what they build: with a wallet present, once the call data is encoded (and, for
  \<open>approveToken\<close>, once the total supply is read) each of them sends exactly one
  \<open>eth_sendTransaction\<close> request, carrying the request it assembled.
\<close>

theorem builders_effects:
  "(\<forall>e \<in> set (snd (checkTokenAllowance pf svc tokenAddress contract abi d wa)). is_read_call e) \<and>
   (\<forall>w ts sig.
      wallet svc = Some w \<and>
      fst (totalSupply pf svc tokenAddress abi d) = Inr ts \<and>
      encodeFunctionCall (web3Provider svc) (getMethodInterface abi ''approve'')
        [JString tokenAddress, JString (calcTransactionAmount pf ts d)] = Inr sig \<longrightarrow>
      snd (approveToken pf svc tokenAddress abi d wa) =
        [Call_totalSupply tokenAddress,
         Request_eth_sendTransaction
           \<lparr>tx_from = js_or wa (walletAddress svc), tx_to = tokenAddress,
            tx_data = sig, tx_value = None\<rparr>]) \<and>
   (\<forall>w sig.
      wallet svc = Some w \<and>
      encodeFunctionCall (web3Provider svc) (getMethodInterface abi method) data = Inr sig \<longrightarrow>
      snd (createTransaction svc abi method data tokenAddress wa val) =
        [Request_eth_sendTransaction
           \<lparr>tx_from = js_or wa (walletAddress svc), tx_to = tokenAddress, tx_data = sig,
            tx_value = Some (if truthy val then val else JString [])\<rparr>])"
proof (intro conjI allI impI)
  show "\<forall>e \<in> set (snd (checkTokenAllowance pf svc tokenAddress contract abi d wa)). is_read_call e"
    by (rule checkTokenAllowance_reads_only)
next
  fix w ts sig
  assume "wallet svc = Some w \<and>
      fst (totalSupply pf svc tokenAddress abi d) = Inr ts \<and>
      encodeFunctionCall (web3Provider svc) (getMethodInterface abi ''approve'')
        [JString tokenAddress, JString (calcTransactionAmount pf ts d)] = Inr sig"
  then have "wallet svc = Some w"
    and "fst (totalSupply pf svc tokenAddress abi d) = Inr ts"
    and "encodeFunctionCall (web3Provider svc) (getMethodInterface abi ''approve'')
           [JString tokenAddress, JString (calcTransactionAmount pf ts d)] = Inr sig"
    by blast+
  then show "snd (approveToken pf svc tokenAddress abi d wa) =
        [Call_totalSupply tokenAddress,
         Request_eth_sendTransaction
           \<lparr>tx_from = js_or wa (walletAddress svc), tx_to = tokenAddress,
            tx_data = sig, tx_value = None\<rparr>]"
    by (rule approveToken_sends)
next
  fix w sig
  assume "wallet svc = Some w \<and>
      encodeFunctionCall (web3Provider svc) (getMethodInterface abi method) data = Inr sig"
  then have "wallet svc = Some w"
    and "encodeFunctionCall (web3Provider svc) (getMethodInterface abi method) data = Inr sig"
    by blast+
  then show "snd (createTransaction svc abi method data tokenAddress wa val) =
        [Request_eth_sendTransaction
           \<lparr>tx_from = js_or wa (walletAddress svc), tx_to = tokenAddress, tx_data = sig,
            tx_value = Some (if truthy val then val else JString [])\<rparr>]"
    by (rule createTransaction_sends)
qed

lemma calc_1000: "calcTransactionAmount exact_platform (unscale exact_platform (JString ''1000'') 0) 0 = ''1000''"
  by code_simp

text \<open>
  Counterexample to claim C6 as stated: \<open>approveToken\<close> and \<open>createTransaction\<close> each
  invoke \<open>eth_sendTransaction\<close>.
\<close>

theorem approveToken_submits:
  "approveToken exact_platform (test_service (test_wallet None ''0x3'') ''1000'') ''0xT0KEN'' erc20_abi 0 None
     = (Resolved (Inr (JString ''0xHASH'')),
        [Call_totalSupply ''0xT0KEN'',
         Request_eth_sendTransaction
           \<lparr>tx_from = Some [], tx_to = ''0xT0KEN'', tx_data = ''approve,0xT0KEN,1000'',
            tx_value = None\<rparr>]) \<and>
   createTransaction (test_service (test_wallet None ''0x3'') ''1000'') erc20_abi ''transfer''
       [JString ''0xB0B'', JString ''25''] ''0xT0KEN'' None JUndefined
     = (Resolved (JString ''0xHASH''),
        [Request_eth_sendTransaction
           \<lparr>tx_from = Some [], tx_to = ''0xT0KEN'', tx_data = ''transfer,0xB0B,25'',
            tx_value = Some (JString [])\<rparr>])"
  by (simp add: approveToken_def createTransaction_def totalSupply_def sendTransaction_def
      test_service_def test_web3_def test_wallet_def test_encode_def erc20_abi_def
      getMethodInterface_def String_undefined_def calc_1000)

theorem builders_effects_witness:
  "is_read_call (Call_allowance (Some []) ''0xT0KEN'') \<and> is_read_call (Call_totalSupply ''0xT0KEN'') \<and>
   snd (checkTokenAllowance exact_platform (test_service (test_wallet None ''0x3'') ''1000'')
          ''0xT0KEN'' (test_contract (JString ''5'')) erc20_abi 0 None)
     = [Call_allowance (Some []) ''0xT0KEN'', Call_totalSupply ''0xT0KEN''] \<and>
   snd (approveToken exact_platform (test_service (test_wallet None ''0x3'') ''1000'')
          ''0xT0KEN'' erc20_abi 0 (Some ''0xA11CE''))
     = [Call_totalSupply ''0xT0KEN'',
        Request_eth_sendTransaction
          \<lparr>tx_from = Some ''0xA11CE'', tx_to = ''0xT0KEN'', tx_data = ''approve,0xT0KEN,1000'',
           tx_value = None\<rparr>] \<and>
   snd (createTransaction (test_service (test_wallet None ''0x3'') ''1000'') erc20_abi ''transfer''
          [JString ''0xB0B'', JString ''25''] ''0xT0KEN'' (Some ''0xA11CE'') (JString ''0x10''))
     = [Request_eth_sendTransaction
          \<lparr>tx_from = Some ''0xA11CE'', tx_to = ''0xT0KEN'', tx_data = ''transfer,0xB0B,25'',
           tx_value = Some (JString ''0x10'')\<rparr>]"
proof -
  let ?svc = "test_service (test_wallet None ''0x3'') ''1000''"
  have evs: "snd (checkTokenAllowance exact_platform ?svc ''0xT0KEN'' (test_contract (JString ''5''))
               erc20_abi 0 None) = [Call_allowance (Some []) ''0xT0KEN'', Call_totalSupply ''0xT0KEN'']"
    by (simp add: checkTokenAllowance_unfold test_contract_def test_service_def)
  have w: "wallet ?svc = Some (test_wallet None ''0x3'')"
    by (simp add: test_service_def)
  have ts: "fst (totalSupply exact_platform ?svc ''0xT0KEN'' erc20_abi 0)
              = Inr (unscale exact_platform (JString ''1000'') 0)"
    by (simp add: totalSupply_def test_service_def test_web3_def)
  have enc_approve: "encodeFunctionCall (web3Provider ?svc) (getMethodInterface erc20_abi ''approve'')
      [JString ''0xT0KEN'',
       JString (calcTransactionAmount exact_platform (unscale exact_platform (JString ''1000'') 0) 0)]
      = Inr ''approve,0xT0KEN,1000''"
    by (simp add: test_service_def test_web3_def test_encode_def erc20_abi_def
        getMethodInterface_def String_undefined_def calc_1000)
  have enc_transfer: "encodeFunctionCall (web3Provider ?svc) (getMethodInterface erc20_abi ''transfer'')
      [JString ''0xB0B'', JString ''25''] = Inr ''transfer,0xB0B,25''"
    by (simp add: test_service_def test_web3_def test_encode_def erc20_abi_def
        getMethodInterface_def String_undefined_def)
  note all = builders_effects [of exact_platform ?svc "''0xT0KEN''" "test_contract (JString ''5'')"
      erc20_abi 0 _ "''transfer''" "[JString ''0xB0B'', JString ''25'']" "JString ''0x10''"]
  from all [of None]
  have reads: "\<forall>e \<in> set (snd (checkTokenAllowance exact_platform ?svc ''0xT0KEN''
          (test_contract (JString ''5'')) erc20_abi 0 None)). is_read_call e"
    by blast
  from all [of "Some ''0xA11CE''"] w ts enc_approve
  have approve: "snd (approveToken exact_platform ?svc ''0xT0KEN'' erc20_abi 0 (Some ''0xA11CE''))
     = [Call_totalSupply ''0xT0KEN'',
        Request_eth_sendTransaction
          \<lparr>tx_from = js_or (Some ''0xA11CE'') (walletAddress ?svc), tx_to = ''0xT0KEN'',
           tx_data = ''approve,0xT0KEN,1000'', tx_value = None\<rparr>]"
    by blast
  from all [of "Some ''0xA11CE''"] w enc_transfer
  have transfer: "snd (createTransaction ?svc erc20_abi ''transfer''
          [JString ''0xB0B'', JString ''25''] ''0xT0KEN'' (Some ''0xA11CE'') (JString ''0x10''))
     = [Request_eth_sendTransaction
          \<lparr>tx_from = js_or (Some ''0xA11CE'') (walletAddress ?svc), tx_to = ''0xT0KEN'',
           tx_data = ''transfer,0xB0B,25'',
           tx_value = Some (if truthy (JString ''0x10'') then JString ''0x10'' else JString [])\<rparr>]"
    by blast
  from reads evs approve transfer show ?thesis
    by simp
qed

section \<open>Failures while building a transaction\<close>

text \<open>
  Claim C7 (as amended). When encoding the call fails, which includes the codec's failure
  on the \<open>undefined\<close> descriptor of a method that is not in the ABI,
  \<open>createTransaction\<close> passes the error to its caller as a synchronous exception and
  sends nothing, while \<open>approveToken\<close> catches the error and resolves with the error
  as its value, also sending nothing.
\<close>

theorem builders_construction_failure:
  "(encodeFunctionCall (web3Provider svc) (getMethodInterface abi method) data = Inl e \<longrightarrow>
      createTransaction svc abi method data tokenAddress wa val = (Threw e, [])) \<and>
   (fst (totalSupply pf svc tokenAddress abi d) = Inr ts \<and>
    encodeFunctionCall (web3Provider svc) (getMethodInterface abi ''approve'')
      [JString tokenAddress, JString (calcTransactionAmount pf ts d)] = Inl e' \<longrightarrow>
      approveToken pf svc tokenAddress abi d wa
        = (Resolved (Inl e'), [Call_totalSupply tokenAddress]))"
  by (simp add: createTransaction_def approveToken_unfold)

theorem builders_construction_failure_witness:
  "createTransaction (test_service (test_wallet None ''0x3'') ''1000'') erc20_abi ''mint''
       [JString ''25''] ''0xT0KEN'' None JUndefined = (Threw TypeError, []) \<and>
   approveToken exact_platform (test_service (test_wallet None ''0x3'') ''1000'') ''0xT0KEN''
       [\<lparr>name = Some ''approve'', inputs = [''address'']\<rparr>] 0 None
     = (Resolved (Inl (Error ''EncodingError'')), [Call_totalSupply ''0xT0KEN''])"
proof -
  let ?svc = "test_service (test_wallet None ''0x3'') ''1000''"
  let ?abi = "[\<lparr>name = Some ''approve'', inputs = [''address'']\<rparr>]"
  have c: "encodeFunctionCall (web3Provider ?svc) (getMethodInterface erc20_abi ''mint'')
             [JString ''25''] = Inl TypeError"
    by (simp add: test_service_def test_web3_def test_encode_def erc20_abi_def getMethodInterface_def)
  have t: "fst (totalSupply exact_platform ?svc ''0xT0KEN'' ?abi 0)
             = Inr (unscale exact_platform (JString ''1000'') 0)"
    by (simp add: totalSupply_def test_service_def test_web3_def)
  have a: "encodeFunctionCall (web3Provider ?svc) (getMethodInterface ?abi ''approve'')
             [JString ''0xT0KEN'',
              JString (calcTransactionAmount exact_platform (unscale exact_platform (JString ''1000'') 0) 0)]
             = Inl (Error ''EncodingError'')"
    by (simp add: test_service_def test_web3_def test_encode_def getMethodInterface_def)
  from builders_construction_failure [of ?svc erc20_abi "''mint''" "[JString ''25'']" TypeError
      "''0xT0KEN''" None JUndefined exact_platform 0 "unscale exact_platform (JString ''1000'') 0"
      "Error ''EncodingError''"] c
    builders_construction_failure [of ?svc ?abi "''mint''" "[]" TypeError
      "''0xT0KEN''" None JUndefined exact_platform 0 "unscale exact_platform (JString ''1000'') 0"
      "Error ''EncodingError''"] t a
  show ?thesis by blast
qed

text \<open>
  Counterexample to claim C7 as stated: the ABI has no \<open>approve\<close> method, the codec
  throws, and \<open>approveToken\<close> resolves (with the error as value) instead of rejecting.
\<close>

theorem approveToken_resolves_with_error:
  "getMethodInterface [] ''approve'' = None \<and>
   approveToken exact_platform (test_service (test_wallet None ''0x3'') ''1000'') ''0xT0KEN'' [] 0 None
     = (Resolved (Inl TypeError), [Call_totalSupply ''0xT0KEN''])"
  by (simp add: approveToken_unfold totalSupply_def test_service_def test_web3_def test_encode_def
      getMethodInterface_def)

section \<open>The sender of a transaction built before connecting\<close>

lemma new_MetamaskService_walletAddress:
  "new_MetamaskService cfg ethereum w3 = Inr svc \<Longrightarrow> walletAddress svc = Some []"
  by (auto simp: new_MetamaskService_def split: option.splits)

lemma requestAccounts_then_unresolved:
  "requestAccounts_then svc w c = (out, svc', evs) \<Longrightarrow> \<forall>r. out \<noteq> Resolved r \<Longrightarrow> svc' = svc"
  by (auto simp: requestAccounts_then_def split: sum.splits)

lemma probe_chainId_unresolved:
  "probe_chainId svc w un uc = (out, svc', evs) \<Longrightarrow> \<forall>r. out \<noteq> Resolved r \<Longrightarrow> svc' = svc"
  by (auto simp: probe_chainId_def split: sum.splits if_splits prod.splits
      dest: requestAccounts_then_unresolved)

lemma getAccount_unresolved:
  "getAccount svc = (out, svc', evs) \<Longrightarrow> \<forall>r. out \<noteq> Resolved r \<Longrightarrow> svc' = svc"
  by (auto simp: getAccount_def getAccount_executor_def
      split: option.splits if_splits
      dest: requestAccounts_then_unresolved probe_chainId_unresolved)

lemma never_connected_walletAddress:
  "never_connected svc \<Longrightarrow> walletAddress svc = Some []"
proof (induction rule: never_connected.induct)
  case (constructed cfg ethereum w3 svc)
  then show ?case by (rule new_MetamaskService_walletAddress)
next
  case (not_resolved svc out svc' evs)
  from getAccount_unresolved [OF not_resolved.hyps(2,3)] not_resolved.IH
  show ?case by simp
qed

lemma approveToken_from:
  assumes "Request_eth_sendTransaction tx \<in> set (snd (approveToken pf svc tokenAddress abi d wa))"
  shows "tx_from tx = js_or wa (walletAddress svc)"
  using assms
  by (auto simp: approveToken_def sendTransaction_def totalSupply_def Let_def
      split: sum.splits option.splits)

lemma createTransaction_from:
  assumes "Request_eth_sendTransaction tx \<in>
             set (snd (createTransaction svc abi method data tokenAddress wa val))"
  shows "tx_from tx = js_or wa (walletAddress svc)"
  using assms
  by (auto simp: createTransaction_def sendTransaction_def Let_def
      split: sum.splits option.splits)

lemma approveToken_resumed_same:
  "approveToken_resumed pf svc svc tokenAddress abi d wa = approveToken pf svc tokenAddress abi d wa"
  by (simp add: approveToken_resumed_def approveToken_def)

lemma approveToken_resumed_unfold:
  "approveToken_resumed pf svc svc' tokenAddress abi d wa =
     (case fst (totalSupply pf svc tokenAddress abi d) of
        Inl error \<Rightarrow> (Resolved (Inl error), [Call_totalSupply tokenAddress])
      | Inr ts \<Rightarrow>
          (case encodeFunctionCall (web3Provider svc') (getMethodInterface abi ''approve'')
                  [JString tokenAddress, JString (calcTransactionAmount pf ts d)] of
             Inl error \<Rightarrow> (Resolved (Inl error), [Call_totalSupply tokenAddress])
           | Inr approveSignature \<Rightarrow>
               (case sendTransaction svc'
                       \<lparr>tx_from = js_or wa (walletAddress svc'),
                        tx_to = tokenAddress, tx_data = approveSignature, tx_value = None\<rparr> of
                  (Threw error, evs') \<Rightarrow> (Resolved (Inl error), [Call_totalSupply tokenAddress] @ evs')
                | (Rejected error, evs') \<Rightarrow> (Rejected error, [Call_totalSupply tokenAddress] @ evs')
                | (Resolved v, evs') \<Rightarrow> (Resolved (Inr v), [Call_totalSupply tokenAddress] @ evs'))))"
  by (simp add: approveToken_resumed_def totalSupply_def Let_def split: sum.splits)

lemma approveToken_resumed_sends:
  assumes "wallet svc' = Some w"
    and "fst (totalSupply pf svc tokenAddress abi d) = Inr ts"
    and "encodeFunctionCall (web3Provider svc') (getMethodInterface abi ''approve'')
           [JString tokenAddress, JString (calcTransactionAmount pf ts d)] = Inr sig"
  shows "snd (approveToken_resumed pf svc svc' tokenAddress abi d wa) =
           [Call_totalSupply tokenAddress,
            Request_eth_sendTransaction
              \<lparr>tx_from = js_or wa (walletAddress svc'), tx_to = tokenAddress,
               tx_data = sig, tx_value = None\<rparr>]"
  using assms
  by (simp add: approveToken_resumed_unfold sendTransaction_with_wallet split: sum.splits)

text \<open>
  Claim C10 (as amended). Let no \<open>getAccount\<close> have succeeded on the service object at
  the moment the sender is read: for \<open>createTransaction\<close> this is the call, for
  \<open>approveToken\<close> it is the resumption after the total-supply read. Then, with no
  explicit \<open>walletAddress\<close> argument, a wallet present and the call encoded,
  \<open>createTransaction\<close> sends exactly one request and \<open>approveToken\<close> sends exactly one
  request after its read, and the \<open>from\<close> field of that request is the empty string.
  This covers \<open>approveToken\<close> run with nothing else happening while the read is
  pending.
\<close>

theorem unconnected_sender_is_empty:
  "(never_connected svc \<and> wallet svc = Some w \<and>
    encodeFunctionCall (web3Provider svc) (getMethodInterface abi method) data = Inr sig \<longrightarrow>
      snd (createTransaction svc abi method data tokenAddress None val) =
        [Request_eth_sendTransaction
           \<lparr>tx_from = Some [], tx_to = tokenAddress, tx_data = sig,
            tx_value = Some (if truthy val then val else JString [])\<rparr>]) \<and>
   (never_connected svc' \<and> wallet svc' = Some w' \<and>
    fst (totalSupply pf svc0 tokenAddress abi d) = Inr ts \<and>
    encodeFunctionCall (web3Provider svc') (getMethodInterface abi ''approve'')
      [JString tokenAddress, JString (calcTransactionAmount pf ts d)] = Inr sig' \<longrightarrow>
      snd (approveToken_resumed pf svc0 svc' tokenAddress abi d None) =
        [Call_totalSupply tokenAddress,
         Request_eth_sendTransaction
           \<lparr>tx_from = Some [], tx_to = tokenAddress, tx_data = sig', tx_value = None\<rparr>] \<and>
      (svc0 = svc' \<longrightarrow>
         snd (approveToken pf svc' tokenAddress abi d None) =
           [Call_totalSupply tokenAddress,
            Request_eth_sendTransaction
              \<lparr>tx_from = Some [], tx_to = tokenAddress, tx_data = sig', tx_value = None\<rparr>]))"
proof (intro conjI impI)
  assume h: "never_connected svc \<and> wallet svc = Some w \<and>
    encodeFunctionCall (web3Provider svc) (getMethodInterface abi method) data = Inr sig"
  then have "walletAddress svc = Some []"
    by (simp add: never_connected_walletAddress)
  moreover from h have "wallet svc = Some w"
    and "encodeFunctionCall (web3Provider svc) (getMethodInterface abi method) data = Inr sig"
    by blast+
  then have "snd (createTransaction svc abi method data tokenAddress None val) =
        [Request_eth_sendTransaction
           \<lparr>tx_from = js_or None (walletAddress svc), tx_to = tokenAddress, tx_data = sig,
            tx_value = Some (if truthy val then val else JString [])\<rparr>]"
    by (rule createTransaction_sends)
  ultimately show "snd (createTransaction svc abi method data tokenAddress None val) =
        [Request_eth_sendTransaction
           \<lparr>tx_from = Some [], tx_to = tokenAddress, tx_data = sig,
            tx_value = Some (if truthy val then val else JString [])\<rparr>]"
    by simp
next
  assume h: "never_connected svc' \<and> wallet svc' = Some w' \<and>
    fst (totalSupply pf svc0 tokenAddress abi d) = Inr ts \<and>
    encodeFunctionCall (web3Provider svc') (getMethodInterface abi ''approve'')
      [JString tokenAddress, JString (calcTransactionAmount pf ts d)] = Inr sig'"
  then have empty: "walletAddress svc' = Some []"
    by (simp add: never_connected_walletAddress)
  from h have "wallet svc' = Some w'"
    and "fst (totalSupply pf svc0 tokenAddress abi d) = Inr ts"
    and "encodeFunctionCall (web3Provider svc') (getMethodInterface abi ''approve'')
           [JString tokenAddress, JString (calcTransactionAmount pf ts d)] = Inr sig'"
    by blast+
  then have "snd (approveToken_resumed pf svc0 svc' tokenAddress abi d None) =
        [Call_totalSupply tokenAddress,
         Request_eth_sendTransaction
           \<lparr>tx_from = js_or None (walletAddress svc'), tx_to = tokenAddress,
            tx_data = sig', tx_value = None\<rparr>]"
    by (rule approveToken_resumed_sends)
  with empty show resumed: "snd (approveToken_resumed pf svc0 svc' tokenAddress abi d None) =
        [Call_totalSupply tokenAddress,
         Request_eth_sendTransaction
           \<lparr>tx_from = Some [], tx_to = tokenAddress, tx_data = sig', tx_value = None\<rparr>]"
    by simp
  assume "svc0 = svc'"
  with resumed show "snd (approveToken pf svc' tokenAddress abi d None) =
           [Call_totalSupply tokenAddress,
            Request_eth_sendTransaction
              \<lparr>tx_from = Some [], tx_to = tokenAddress, tx_data = sig', tx_value = None\<rparr>]"
    by (simp add: approveToken_resumed_same)
qed

lemma test_service_constructed:
  "new_MetamaskService \<lparr>cfg_testnet = Some ''ropsten'', cfg_isProduction = None\<rparr>
     (Some w) (test_web3 supply) = Inr (test_service w supply)"
  by (simp add: new_MetamaskService_def test_service_def)

lemma test_service_rejected:
  "getAccount (test_service (test_wallet None ''0x1'') ''1000'')
     = (Rejected ''Please choose ropsten network in metamask wallet'',
        test_service (test_wallet None ''0x1'') ''1000'', [Request_eth_chainId])"
  by (simp add: getAccount_def getAccount_executor_def probe_chainId_def usedNetwork_def
      usedChain_def networks_def test_service_def test_wallet_def String_undefined_def)

theorem unconnected_sender_is_empty_witness:
  "never_connected (test_service (test_wallet None ''0x1'') ''1000'') \<and>
   snd (createTransaction (test_service (test_wallet None ''0x1'') ''1000'') erc20_abi ''transfer''
          [JString ''0xB0B'', JString ''25''] ''0xT0KEN'' None JUndefined)
     = [Request_eth_sendTransaction
          \<lparr>tx_from = Some [], tx_to = ''0xT0KEN'', tx_data = ''transfer,0xB0B,25'',
           tx_value = Some (JString [])\<rparr>] \<and>
   snd (approveToken exact_platform (test_service (test_wallet None ''0x1'') ''1000'')
          ''0xT0KEN'' erc20_abi 0 None)
     = [Call_totalSupply ''0xT0KEN'',
        Request_eth_sendTransaction
          \<lparr>tx_from = Some [], tx_to = ''0xT0KEN'', tx_data = ''approve,0xT0KEN,1000'',
           tx_value = None\<rparr>]"
proof -
  let ?w = "test_wallet None ''0x1''"
  let ?svc = "test_service ?w ''1000''"
  have fresh: "never_connected ?svc"
    by (rule never_connected.constructed) (rule test_service_constructed)
  from fresh test_service_rejected have later: "never_connected ?svc"
    by (rule never_connected.not_resolved) simp
  have w: "wallet ?svc = Some ?w"
    by (simp add: test_service_def)
  have ts: "fst (totalSupply exact_platform ?svc ''0xT0KEN'' erc20_abi 0)
              = Inr (unscale exact_platform (JString ''1000'') 0)"
    by (simp add: totalSupply_def test_service_def test_web3_def)
  have enc_approve: "encodeFunctionCall (web3Provider ?svc) (getMethodInterface erc20_abi ''approve'')
      [JString ''0xT0KEN'',
       JString (calcTransactionAmount exact_platform (unscale exact_platform (JString ''1000'') 0) 0)]
      = Inr ''approve,0xT0KEN,1000''"
    by (simp add: test_service_def test_web3_def test_encode_def erc20_abi_def
        getMethodInterface_def String_undefined_def calc_1000)
  have enc_transfer: "encodeFunctionCall (web3Provider ?svc) (getMethodInterface erc20_abi ''transfer'')
      [JString ''0xB0B'', JString ''25''] = Inr ''transfer,0xB0B,25''"
    by (simp add: test_service_def test_web3_def test_encode_def erc20_abi_def
        getMethodInterface_def String_undefined_def)
  note inst = unconnected_sender_is_empty [of "?svc" "?w" erc20_abi "''transfer''"
      "[JString ''0xB0B'', JString ''25'']" "''transfer,0xB0B,25''" "''0xT0KEN''" JUndefined
      "?svc" "?w" exact_platform "?svc" 0 "unscale exact_platform (JString ''1000'') 0"
      "''approve,0xT0KEN,1000''"]
  from inst later w enc_transfer
  have transfer: "snd (createTransaction ?svc erc20_abi ''transfer''
          [JString ''0xB0B'', JString ''25''] ''0xT0KEN'' None JUndefined)
     = [Request_eth_sendTransaction
          \<lparr>tx_from = Some [], tx_to = ''0xT0KEN'', tx_data = ''transfer,0xB0B,25'',
           tx_value = Some (if truthy JUndefined then JUndefined else JString [])\<rparr>]"
    by blast
  from inst later w ts enc_approve
  have approve: "snd (approveToken exact_platform ?svc ''0xT0KEN'' erc20_abi 0 None)
     = [Call_totalSupply ''0xT0KEN'',
        Request_eth_sendTransaction
          \<lparr>tx_from = Some [], tx_to = ''0xT0KEN'', tx_data = ''approve,0xT0KEN,1000'',
           tx_value = None\<rparr>]"
    by blast
  from later transfer approve show ?thesis
    by simp
qed

text \<open>
  Counterexample to claim C10 as stated: \<open>approveToken\<close> is called on a freshly
  constructed service object, before any successful \<open>getAccount\<close> and without a
  \<open>walletAddress\<close> argument; while its total-supply read is pending a \<open>getAccount\<close>
  resolves and stores the account; the request \<open>approveToken\<close> then submits has that
  account, not the empty string, as its \<open>from\<close> field.
\<close>

theorem approveToken_sender_after_connect:
  "never_connected (test_service (test_wallet None ''0x3'') ''1000'') \<and>
   getAccount (test_service (test_wallet None ''0x3'') ''1000'')
     = (Resolved \<lparr>address = Some ''0xA11CE'', network = ''0x3''\<rparr>,
        (test_service (test_wallet None ''0x3'') ''1000'')\<lparr>walletAddress := Some ''0xA11CE''\<rparr>,
        [Request_eth_chainId, Request_eth_requestAccounts]) \<and>
   approveToken_resumed exact_platform
       (test_service (test_wallet None ''0x3'') ''1000'')
       ((test_service (test_wallet None ''0x3'') ''1000'')\<lparr>walletAddress := Some ''0xA11CE''\<rparr>)
       ''0xT0KEN'' erc20_abi 0 None
     = (Resolved (Inr (JString ''0xHASH'')),
        [Call_totalSupply ''0xT0KEN'',
         Request_eth_sendTransaction
           \<lparr>tx_from = Some ''0xA11CE'', tx_to = ''0xT0KEN'', tx_data = ''approve,0xT0KEN,1000'',
            tx_value = None\<rparr>])"
proof -
  let ?svc = "test_service (test_wallet None ''0x3'') ''1000''"
  have "never_connected ?svc"
    by (rule never_connected.constructed) (rule test_service_constructed)
  moreover have "getAccount ?svc
     = (Resolved \<lparr>address = Some ''0xA11CE'', network = ''0x3''\<rparr>,
        ?svc\<lparr>walletAddress := Some ''0xA11CE''\<rparr>,
        [Request_eth_chainId, Request_eth_requestAccounts])"
    by (simp add: getAccount_def getAccount_executor_def probe_chainId_def requestAccounts_then_def
        usedNetwork_def usedChain_def networks_def test_service_def test_wallet_def
        first_account_def)
  moreover have "approveToken_resumed exact_platform ?svc (?svc\<lparr>walletAddress := Some ''0xA11CE''\<rparr>)
       ''0xT0KEN'' erc20_abi 0 None
     = (Resolved (Inr (JString ''0xHASH'')),
        [Call_totalSupply ''0xT0KEN'',
         Request_eth_sendTransaction
           \<lparr>tx_from = Some ''0xA11CE'', tx_to = ''0xT0KEN'', tx_data = ''approve,0xT0KEN,1000'',
            tx_value = None\<rparr>])"
    by (simp add: approveToken_resumed_def totalSupply_def sendTransaction_def
        test_service_def test_web3_def test_wallet_def test_encode_def erc20_abi_def
        getMethodInterface_def String_undefined_def calc_1000)
  ultimately show ?thesis by blast
qed

section \<open>The round trip between base units and human amounts\<close>

lemma round_half_up_exact:
  fixes x p :: rat
  assumes "0 < p" and "x * p = of_int m"
  shows "sgn x * of_int \<lfloor>\<bar>x\<bar> * p + 1 / 2\<rfloor> / p = x"
proof -
  from assms(1) have "\<bar>x\<bar> * p = \<bar>x * p\<bar>"
    by (simp add: abs_mult)
  also from assms(2) have "\<dots> = of_int \<bar>m\<bar>"
    by simp
  finally have scaled: "\<bar>x\<bar> * p = of_int \<bar>m\<bar>" .
  have "\<lfloor>(of_int \<bar>m\<bar> :: rat) + 1 / 2\<rfloor> = \<bar>m\<bar>"
    by linarith
  then have "sgn x * of_int \<lfloor>\<bar>x\<bar> * p + 1 / 2\<rfloor> / p = sgn x * (\<bar>x\<bar> * p) / p"
    by (simp only: scaled)
  also from assms(1) have "\<dots> = sgn x * \<bar>x\<bar>"
    by simp
  also have "\<dots> = x"
    by (simp add: sgn_mult_abs)
  finally show ?thesis .
qed

lemma round_DECIMAL_PLACES_exact:
  assumes "x * 10 ^ 20 = of_int m"
  shows "round_DECIMAL_PLACES x = x"
  unfolding round_DECIMAL_PLACES_def
  by (rule round_half_up_exact [OF _ assms]) simp

lemma round_DECIMAL_PLACES_int: "round_DECIMAL_PLACES (of_int n) = of_int n"
proof (rule round_DECIMAL_PLACES_exact)
  show "(of_int n :: rat) * 10 ^ 20 = of_int (n * 10 ^ 20)"
    by simp
qed

lemma round_DECIMAL_PLACES_decimals:
  assumes "d \<le> 20"
  shows "round_DECIMAL_PLACES (of_int n / 10 ^ d) = of_int n / 10 ^ d"
proof (rule round_DECIMAL_PLACES_exact)
  have "(10::rat) ^ (d + (20 - d)) = 10 ^ d * 10 ^ (20 - d)"
    by (rule power_add)
  moreover from assms have "d + (20 - d) = 20"
    by simp
  ultimately have split: "(10::rat) ^ 20 = 10 ^ d * 10 ^ (20 - d)"
    by simp
  show "(of_int n / 10 ^ d :: rat) * 10 ^ 20 = of_int (n * 10 ^ (20 - d))"
    unfolding split by simp
qed

text \<open>
  Claim C1 (as amended). Let \<open>d \<le> 20\<close> and let \<open>Math.pow(10, d)\<close> be read as
  exactly \<open>10 ^ d\<close>. For every base-unit integer \<open>n\<close>, read from the string \<open>s\<close>,
  whose unscaled value \<open>n / 10 ^ d\<close> survives the conversion to a native number,
  unscaling by \<open>d\<close> (the value \<open>totalSupply\<close> returns) and re-scaling by \<open>d\<close>
  (\<open>calcTransactionAmount\<close>) yields the decimal string of \<open>n\<close>. Symmetrically, for
  every native amount \<open>h\<close> with at most \<open>d\<close> fractional digits (its value is
  \<open>k / 10 ^ d\<close> for an integer \<open>k\<close>) that survives printing and conversion back, and
  whose scaled string is read back as \<open>k\<close>, scaling and then unscaling returns \<open>h\<close>.
  The bound on \<open>d\<close> is needed because the division and \<open>toString(10)\<close> round to
  20 decimal places; the conversions to and from native numbers are the platform's.
\<close>

theorem scale_unscale_roundtrip:
  assumes "d \<le> 20"
    and "BigNumber_of_number pf (Math_pow10 pf d) = BNum (10 ^ d)"
  shows "(BigNumber_of_string pf s = BNum (of_int n) \<and>
          BigNumber_of_number pf (Number_of_string pf (fixed_point pf (BNum (of_int n / 10 ^ d))))
            = BNum (of_int n / 10 ^ d)
          \<longrightarrow> calcTransactionAmount pf (unscale pf (JString s) d) d = fixed_point pf (BNum (of_int n))) \<and>
         (BigNumber_of_number pf h = BNum (of_int k / 10 ^ d) \<and>
          BigNumber_of_string pf (fixed_point pf (BNum (of_int k))) = BNum (of_int k) \<and>
          Number_of_string pf (fixed_point pf (BNum (of_int k / 10 ^ d))) = h
          \<longrightarrow> unscale pf (JString (calcTransactionAmount pf h d)) d = h)"
proof (intro conjI impI)
  assume a: "BigNumber_of_string pf s = BNum (of_int n) \<and>
          BigNumber_of_number pf (Number_of_string pf (fixed_point pf (BNum (of_int n / 10 ^ d))))
            = BNum (of_int n / 10 ^ d)"
  then have "unscale pf (JString s) d = Number_of_string pf (fixed_point pf (BNum (of_int n / 10 ^ d)))"
    by (simp add: unscale_def new_BigNumber_def toString10_def
        round_DECIMAL_PLACES_decimals [OF assms(1)])
  with a assms(2) show "calcTransactionAmount pf (unscale pf (JString s) d) d
      = fixed_point pf (BNum (of_int n))"
    by (simp add: calcTransactionAmount_def toString10_def round_DECIMAL_PLACES_int)
next
  assume b: "BigNumber_of_number pf h = BNum (of_int k / 10 ^ d) \<and>
          BigNumber_of_string pf (fixed_point pf (BNum (of_int k))) = BNum (of_int k) \<and>
          Number_of_string pf (fixed_point pf (BNum (of_int k / 10 ^ d))) = h"
  with assms(2) have "calcTransactionAmount pf h d = fixed_point pf (BNum (of_int k))"
    by (simp add: calcTransactionAmount_def toString10_def round_DECIMAL_PLACES_int)
  with b show "unscale pf (JString (calcTransactionAmount pf h d)) d = h"
    by (simp add: unscale_def new_BigNumber_def toString10_def
        round_DECIMAL_PLACES_decimals [OF assms(1)])
qed

lemma unscale_1_21: "unscale exact_platform (JString ''1'') 21 = BNum 0"
  by code_simp

lemma calc_0_21: "calcTransactionAmount exact_platform (BNum 0) 21 = ''0''"
  by code_simp

text \<open>
  Counterexample to claim C1 as stated: with 21 decimals the base-unit amount \<open>1\<close>
  unscales to \<open>1 / 10 ^ 21\<close>, which the division rounds to \<open>0\<close> at 20 decimal places;
  re-scaling yields \<open>0\<close>, not \<open>1\<close>. Every number involved is exactly representable
  as a native number.
\<close>

theorem roundtrip_loses_unit:
  "BigNumber_of_string exact_platform ''1'' = BNum 1 \<and>
   unscale exact_platform (JString ''1'') 21 = BNum 0 \<and>
   calcTransactionAmount exact_platform (unscale exact_platform (JString ''1'') 21) 21 = ''0'' \<and>
   fixed_point exact_platform (BNum 1) = ''1''"
proof -
  have "BigNumber_of_string exact_platform ''1'' = BNum 1"
    by (simp add: exact_platform_def, code_simp)
  moreover have "fixed_point exact_platform (BNum 1) = ''1''"
    by (simp add: exact_platform_def, code_simp)
  ultimately show ?thesis
    by (simp add: unscale_1_21 calc_0_21)
qed

lemma exact_reads_supply:
  "BigNumber_of_string exact_platform ''1000000000000000000000'' = BNum (of_int (10 ^ 21))"
  by (simp add: exact_platform_def, code_simp)

lemma exact_number_1000:
  "BigNumber_of_number exact_platform
     (Number_of_string exact_platform (fixed_point exact_platform (BNum (of_int (10 ^ 21) / 10 ^ 18))))
     = BNum (of_int (10 ^ 21) / 10 ^ 18)"
  by (simp add: exact_platform_def, code_simp)

lemma exact_prints_supply:
  "fixed_point exact_platform (BNum (of_int (10 ^ 21))) = ''1000000000000000000000''"
  by (simp add: exact_platform_def, code_simp)

lemma exact_reads_1234:
  "BigNumber_of_string exact_platform (fixed_point exact_platform (BNum (of_int 1234)))
     = BNum (of_int 1234)"
  by (simp add: exact_platform_def, code_simp)

lemma exact_number_12_34:
  "Number_of_string exact_platform (fixed_point exact_platform (BNum (of_int 1234 / 10 ^ 2)))
     = BNum (of_int 1234 / 10 ^ 2)"
  by (simp add: exact_platform_def, code_simp)

lemma exact_decimal_12_34: "decimal_value ''12.34'' = BNum (of_int 1234 / 10 ^ 2)"
  by code_simp

theorem scale_unscale_roundtrip_witness:
  "calcTransactionAmount exact_platform
      (unscale exact_platform (JString ''1000000000000000000000'') 18) 18
     = ''1000000000000000000000'' \<and>
   unscale exact_platform
      (JString (calcTransactionAmount exact_platform (decimal_value ''12.34'') 2)) 2
     = decimal_value ''12.34''"
proof -
  have pow: "BigNumber_of_number exact_platform (Math_pow10 exact_platform d) = BNum (10 ^ d)" for d
    by (simp add: exact_platform_def)
  have num: "BigNumber_of_number exact_platform (BNum (of_int 1234 / 10 ^ 2))
               = BNum (of_int 1234 / 10 ^ 2)"
    by (simp add: exact_platform_def)
  from scale_unscale_roundtrip [of 18 exact_platform "''1000000000000000000000''" "10 ^ 21", OF _ pow]
    exact_reads_supply exact_number_1000
  have "calcTransactionAmount exact_platform
          (unscale exact_platform (JString ''1000000000000000000000'') 18) 18
        = fixed_point exact_platform (BNum (of_int (10 ^ 21)))"
    by simp
  moreover
  from scale_unscale_roundtrip [of 2 exact_platform _ _ "BNum (of_int 1234 / 10 ^ 2)" 1234, OF _ pow]
    num exact_reads_1234 exact_number_12_34
  have "unscale exact_platform
          (JString (calcTransactionAmount exact_platform (BNum (of_int 1234 / 10 ^ 2)) 2)) 2
        = BNum (of_int 1234 / 10 ^ 2)"
    by simp
  ultimately show ?thesis
    by (simp only: exact_prints_supply exact_decimal_12_34)
qed


end
